theory Spec2Isabelle
  imports Main
begin

section \<open>Python values, exceptions and dictionaries\<close>

text \<open>
  The module \<^verbatim>\<open>pycrumbs/track.py\<close> is embedded function by function. A Python object
  is the finite tree of its content: \<open>PObj r\<close> stands for an object of any other class
  and carries the text \<^verbatim>\<open>repr\<close> returns for it; floating point numbers and objects that
  contain themselves are left out. Lists, dictionaries and other objects can be changed
  in place by whoever holds them; how a call of the decorated function leaves the
  objects it was passed is part of the description of that function, below.

  A \<^verbatim>\<open>pathlib.Path\<close> on POSIX is its anchor and its list of parts. The anchor is empty
  for a relative path, \<^verbatim>\<open>/\<close> for an absolute one, and \<^verbatim>\<open>//\<close> for a path written with
  exactly two leading slashes, which \<^verbatim>\<open>pathlib\<close> keeps apart.
\<close>

datatype anchor = Relative | Slash | SlashSlash

datatype path = Path (anchor: anchor) (parts: "string list")

datatype pyval =
    PNone
  | PBool bool
  | PInt int
  | PStr string
  | PList "pyval list"
  | PDict "(string \<times> pyval) list"
  | PPath path
  | PObj string

datatype pyexn =
    TypeError
  | ValueError
  | KeyError
  | NameError
  | IndexError
  | RuntimeError
  | FileExistsError
  | FileNotFoundError
  | NotADirectoryError
  | IsADirectoryError
  | JSONDecodeError
  | Raised string

text \<open>
  A \<^verbatim>\<open>dict\<close> keeps insertion order: \<open>d[k] = v\<close> replaces the value of an existing key in
  place and appends a new key at the end; \<open>d[k]\<close> raises \<^verbatim>\<open>KeyError\<close> on a missing key.
\<close>

type_synonym pydict = "(string \<times> pyval) list"

fun dict_set :: "pydict \<Rightarrow> string \<Rightarrow> pyval \<Rightarrow> pydict" where
  "dict_set [] k v = [(k, v)]"
| "dict_set ((k', v') # d) k v =
     (if k' = k then (k, v) # d else (k', v') # dict_set d k v)"

fun dict_lookup :: "pydict \<Rightarrow> string \<Rightarrow> pyval option" where
  "dict_lookup [] k = None"
| "dict_lookup ((k', v') # d) k = (if k' = k then Some v' else dict_lookup d k)"

definition dict_get :: "pydict \<Rightarrow> string \<Rightarrow> pyexn + pyval" where
  "dict_get d k = (case dict_lookup d k of None \<Rightarrow> Inl KeyError | Some v \<Rightarrow> Inr v)"

section \<open>The standard library functions the module calls\<close>

text \<open>
  \<^verbatim>\<open>json.dumps\<close> and \<^verbatim>\<open>repr\<close> are not code of this module: they are parameters of the
  embedding. \<open>json_dumps L v\<close> is the encoded text, or \<open>None\<close> where \<^verbatim>\<open>json.dumps\<close>
  raises \<^verbatim>\<open>TypeError\<close> or \<^verbatim>\<open>OverflowError\<close>; \<^verbatim>\<open>json.dump\<close> uses the same encoder and
  fails on the same values. The three flags say which of the optional libraries were
  importable when the module was loaded, and \<open>np_random_seed\<close>, \<open>tf_set_seed\<close> and
  \<open>torch_manual_seed\<close> give the exception with which \<^verbatim>\<open>np.random.seed\<close>,
  \<^verbatim>\<open>tf.random.set_seed\<close> and \<^verbatim>\<open>torch.manual_seed\<close> refuse a seed, or \<open>None\<close> where they
  accept it.
\<close>

record pylib =
  json_dumps :: "pyval \<Rightarrow> string option"
  py_repr :: "pyval \<Rightarrow> string"
  have_numpy :: bool
  have_tensorflow :: bool
  have_torch :: bool
  np_random_seed :: "pyval \<Rightarrow> pyexn option"
  tf_set_seed :: "pyval \<Rightarrow> pyexn option"
  torch_manual_seed :: "pyval \<Rightarrow> pyexn option"

section \<open>\<^verbatim>\<open>_format_json\<close>\<close>

definition suppressed :: string where
  "suppressed = ''<suppressed due to excessive length>''"

definition format_json :: "pylib \<Rightarrow> pyval \<Rightarrow> nat option \<Rightarrow> pyval" where
  "format_json L obj char_limit =
     (let (string, serializable) =
            (case json_dumps L obj of
               Some s \<Rightarrow> (s, True)
             | None \<Rightarrow> (py_repr L obj, False))
      in if char_limit \<noteq> None \<and> length string > the char_limit
         then PStr suppressed
         else if serializable then obj else PStr string)"

section \<open>Paths\<close>

text \<open>
  \<^verbatim>\<open>Path(s)\<close> on POSIX: the text is cut at every \<^verbatim>\<open>/\<close>, empty parts and \<^verbatim>\<open>.\<close> parts
  are dropped and \<^verbatim>\<open>..\<close> parts are kept. A text that starts with \<^verbatim>\<open>/\<close> gives an absolute
  path: its anchor is \<^verbatim>\<open>//\<close> when the text starts with exactly two slashes, and \<^verbatim>\<open>/\<close>
  when it starts with one slash or with three and more.
\<close>

fun split_sep :: "string \<Rightarrow> string \<Rightarrow> string list" where
  "split_sep cur [] = [cur]"
| "split_sep cur (c # cs) =
     (if c = CHR ''/'' then cur # split_sep [] cs else split_sep (cur @ [c]) cs)"

definition splitroot :: "string \<Rightarrow> anchor" where
  "splitroot s =
     (if s \<noteq> [] \<and> hd s = CHR ''/'' then
        (if length (takeWhile (\<lambda>c. c = CHR ''/'') s) = 2 then SlashSlash else Slash)
      else Relative)"

definition parse_path :: "string \<Rightarrow> path" where
  "parse_path s =
     Path (splitroot s)
          (filter (\<lambda>p. p \<noteq> [] \<and> p \<noteq> ''.'') (split_sep [] s))"

text \<open>\<^verbatim>\<open>Path(v)\<close> accepts a string or a path, and raises \<^verbatim>\<open>TypeError\<close> otherwise.\<close>

definition Path_of :: "pyval \<Rightarrow> pyexn + path" where
  "Path_of v =
     (case v of PStr s \<Rightarrow> Inr (parse_path s) | PPath p \<Rightarrow> Inr p | _ \<Rightarrow> Inl TypeError)"

definition joinpath :: "path \<Rightarrow> path \<Rightarrow> path" where
  "joinpath p q = (if anchor q \<noteq> Relative then q else Path (anchor p) (parts p @ parts q))"

text \<open>The operator \<^verbatim>\<open>p / v\<close>.\<close>

definition truediv :: "path \<Rightarrow> pyval \<Rightarrow> pyexn + path" where
  "truediv p v =
     (case v of
        PStr s \<Rightarrow> Inr (joinpath p (parse_path s))
      | PPath q \<Rightarrow> Inr (joinpath p q)
      | _ \<Rightarrow> Inl TypeError)"

definition name :: "path \<Rightarrow> string" where
  "name p = (if parts p = [] then [] else last (parts p))"

definition parent :: "path \<Rightarrow> path" where
  "parent p = Path (anchor p) (butlast (parts p))"

text \<open>
  \<^verbatim>\<open>stem\<close> is the name without its last suffix: with \<open>i\<close> the index of the last dot,
  the name is cut at \<open>i\<close> when \<open>0 < i < len(name) - 1\<close>, and kept whole otherwise.
\<close>

definition rfind_dot :: "string \<Rightarrow> nat option" where
  "rfind_dot s =
     (if CHR ''.'' \<in> set s
      then Some (length s - 1 - length (takeWhile (\<lambda>c. c \<noteq> CHR ''.'') (rev s)))
      else None)"

definition stem :: "path \<Rightarrow> string" where
  "stem p =
     (let n = name p in
      case rfind_dot n of
        None \<Rightarrow> n
      | Some i \<Rightarrow> (if 0 < i \<and> i + 1 < length n then take i n else n))"

definition valid_name :: "string \<Rightarrow> bool" where
  "valid_name n = (n \<noteq> [] \<and> CHR ''/'' \<notin> set n \<and> n \<noteq> ''.'')"

definition with_name :: "path \<Rightarrow> string \<Rightarrow> pyexn + path" where
  "with_name p n =
     (if name p = [] then Inl ValueError
      else if \<not> valid_name n then Inl ValueError
      else Inr (Path (anchor p) (butlast (parts p) @ [n])))"

definition endswith :: "string \<Rightarrow> string \<Rightarrow> bool" where
  "endswith s suf = (length suf \<le> length s \<and> drop (length s - length suf) s = suf)"

section \<open>The file system\<close>

text \<open>
  Directories and regular files, without symbolic links and permissions. A node is found
  under its absolute, normalised list of parts; the root is \<open>[]\<close> and is always a
  directory, and the kernel takes the anchor \<^verbatim>\<open>//\<close> for the root as well. A file holds
  the document \<^verbatim>\<open>json.load\<close> returns for it, or \<open>None\<close> when its text is not JSON. A
  document that \<^verbatim>\<open>json.dump\<close> can encode is written whole, and \<^verbatim>\<open>json.load\<close> reads the same
  document back. The world also holds the working directory and the seed last given to
  each random number library.
\<close>

datatype node = Dir | File "pyval option"

record world =
  files :: "(string list \<times> node) list"
  cwd :: "string list"
  rng :: pydict

definition lookup :: "world \<Rightarrow> string list \<Rightarrow> node option" where
  "lookup w k = (if k = [] then Some Dir else map_of (files w) k)"

definition store :: "world \<Rightarrow> string list \<Rightarrow> node \<Rightarrow> world" where
  "store w k n = w\<lparr>files := (k, n) # files w\<rparr>"

text \<open>
  The kernel walks a path part by part: the place it stands on must be a directory
  before it takes the next step, and \<^verbatim>\<open>..\<close> steps to the parent.
\<close>

fun walk :: "world \<Rightarrow> string list \<Rightarrow> string list \<Rightarrow> pyexn + string list" where
  "walk w cur [] = Inr cur"
| "walk w cur (c # cs) =
     (case lookup w cur of
        None \<Rightarrow> Inl FileNotFoundError
      | Some (File _) \<Rightarrow> Inl NotADirectoryError
      | Some Dir \<Rightarrow> walk w (if c = ''..'' then butlast cur else cur @ [c]) cs)"

definition locate :: "world \<Rightarrow> path \<Rightarrow> pyexn + string list" where
  "locate w p = walk w (if anchor p = Relative then cwd w else []) (parts p)"

definition exists :: "world \<Rightarrow> path \<Rightarrow> bool" where
  "exists w p = (case locate w p of Inl _ \<Rightarrow> False | Inr k \<Rightarrow> lookup w k \<noteq> None)"

definition is_dir :: "world \<Rightarrow> path \<Rightarrow> bool" where
  "is_dir w p = (case locate w p of Inl _ \<Rightarrow> False | Inr k \<Rightarrow> lookup w k = Some Dir)"

definition os_mkdir :: "world \<Rightarrow> path \<Rightarrow> pyexn + world" where
  "os_mkdir w p =
     (case locate w p of
        Inl e \<Rightarrow> Inl e
      | Inr k \<Rightarrow>
          (case lookup w k of
             Some _ \<Rightarrow> Inl FileExistsError
           | None \<Rightarrow> Inr (store w k Dir)))"

text \<open>
  \<^verbatim>\<open>Path.mkdir(exist_ok=True, parents=...)\<close>: on \<^verbatim>\<open>FileNotFoundError\<close> the parents are made
  first when asked for; any other error is forgiven when the path is a directory already.
\<close>

definition mkdir_single :: "world \<Rightarrow> path \<Rightarrow> pyexn + world" where
  "mkdir_single w p =
     (case os_mkdir w p of
        Inr w' \<Rightarrow> Inr w'
      | Inl e \<Rightarrow>
          (if e = FileNotFoundError then Inl e
           else if is_dir w p then Inr w else Inl e))"

function mkdir :: "world \<Rightarrow> path \<Rightarrow> bool \<Rightarrow> pyexn + world" where
  "mkdir w p parents =
     (case os_mkdir w p of
        Inr w' \<Rightarrow> Inr w'
      | Inl e \<Rightarrow>
          (if e = FileNotFoundError then
             (if \<not> parents \<or> parts p = [] then Inl e
              else (case mkdir w (parent p) True of
                      Inl e' \<Rightarrow> Inl e'
                    | Inr w' \<Rightarrow> mkdir_single w' p))
           else if is_dir w p then Inr w else Inl e))"
  by pat_completeness auto
termination
  by (relation "measure (\<lambda>(w, p, parents). length (parts p))") (auto simp: parent_def)

declare mkdir.simps [simp del]

definition iterdir :: "world \<Rightarrow> path \<Rightarrow> pyexn + string list list" where
  "iterdir w p =
     (case locate w p of
        Inl e \<Rightarrow> Inl e
      | Inr k \<Rightarrow>
          (case lookup w k of
             None \<Rightarrow> Inl FileNotFoundError
           | Some (File _) \<Rightarrow> Inl NotADirectoryError
           | Some Dir \<Rightarrow>
               Inr (filter (\<lambda>k'. k' \<noteq> [] \<and> butlast k' = k \<and> lookup w k' \<noteq> None)
                      (remdups (map fst (files w))))))"

text \<open>
  A computation that changes the world either returns a value or raises an exception,
  and leaves a world behind in both cases.
\<close>

datatype 'a outcome = Return 'a world | Raise pyexn world

text \<open>
  \<^verbatim>\<open>open('w')\<close> followed by \<^verbatim>\<open>json.dump\<close>, and \<^verbatim>\<open>open('r')\<close> followed by \<^verbatim>\<open>json.load\<close>.
  Opening the file for writing empties it, and \<^verbatim>\<open>json.dump\<close> writes the text piece by
  piece: when it meets a value that it cannot encode it raises \<^verbatim>\<open>TypeError\<close> and leaves
  the beginning of a document in the file, which is not JSON.
\<close>

definition dump :: "pylib \<Rightarrow> world \<Rightarrow> path \<Rightarrow> pyval \<Rightarrow> unit outcome" where
  "dump L w p doc =
     (case locate w p of
        Inl e \<Rightarrow> Raise e w
      | Inr k \<Rightarrow>
          (case lookup w k of
             Some Dir \<Rightarrow> Raise IsADirectoryError w
           | _ \<Rightarrow>
               (case json_dumps L doc of
                  None \<Rightarrow> Raise TypeError (store w k (File None))
                | Some _ \<Rightarrow> Return () (store w k (File (Some doc))))))"

definition load :: "world \<Rightarrow> path \<Rightarrow> pyexn + pyval" where
  "load w p =
     (case locate w p of
        Inl e \<Rightarrow> Inl e
      | Inr k \<Rightarrow>
          (case lookup w k of
             None \<Rightarrow> Inl FileNotFoundError
           | Some Dir \<Rightarrow> Inl IsADirectoryError
           | Some (File None) \<Rightarrow> Inl JSONDecodeError
           | Some (File (Some doc)) \<Rightarrow> Inr doc))"

text \<open>
  \<^verbatim>\<open>Path.resolve()\<close> makes the path absolute, with the anchor \<^verbatim>\<open>/\<close>, and removes the
  \<^verbatim>\<open>..\<close> parts; without symbolic links that is all it does.
\<close>

fun normalize :: "string list \<Rightarrow> string list \<Rightarrow> string list" where
  "normalize acc [] = acc"
| "normalize acc (c # cs) =
     (if c = ''..'' then normalize (butlast acc) cs else normalize (acc @ [c]) cs)"

definition resolve :: "world \<Rightarrow> path \<Rightarrow> path" where
  "resolve w p =
     Path Slash (normalize [] ((if anchor p = Relative then cwd w else []) @ parts p))"

section \<open>\<^verbatim>\<open>write_record\<close>\<close>

definition json_name :: "path \<Rightarrow> pyexn + path" where
  "json_name record_path =
     (if \<not> endswith (name record_path) ''.json''
      then with_name record_path (stem record_path @ ''.json'')
      else Inr record_path)"

definition write_record :: "pylib \<Rightarrow> world \<Rightarrow> path \<Rightarrow> pyval \<Rightarrow> unit outcome" where
  "write_record L w record_path record =
     (case json_name record_path of
        Inl e \<Rightarrow> Raise e w
      | Inr record_path' \<Rightarrow> dump L w record_path' record)"

section \<open>\<^verbatim>\<open>get_environment_info\<close> and \<^verbatim>\<open>get_environment_vars\<close>\<close>

text \<open>
  What the interpreter and the operating system report is an input: \<open>sys_orig_argv\<close> is
  \<open>None\<close> where the attribute is missing, \<open>getuser\<close> is \<open>None\<close> where the lookup raises,
  and \<open>build_hash_file\<close> is the node at \<^verbatim>\<open>/etc/docker-build-git-hash\<close> with the text
  \<^verbatim>\<open>f.read()\<close> returns.
\<close>

datatype textnode = TextDir | TextFile string

record host =
  sys_argv :: "string list"
  sys_orig_argv :: "string list option"
  sys_platform :: string
  platform_platform :: string
  sys_version :: string
  implementation_name :: string
  sys_executable :: string
  getcwd :: string
  platform_node :: string
  sys_path :: "string list"
  cpu_count :: int
  getuser :: "string option"
  build_hash_file :: "textnode option"

text \<open>
  \<^verbatim>\<open>str.splitlines\<close>: a line ends at a line feed, a carriage return, a carriage return
  followed by a line feed, or one of the other one-character line boundaries; the text
  after the last boundary is a line when it is not empty.
\<close>

definition linebreak :: "char \<Rightarrow> bool" where
  "linebreak c = (of_char c \<in> {10, 11, 12, 13, 28, 29, 30, 133 :: nat})"

fun splitlines_from :: "string \<Rightarrow> string \<Rightarrow> string list" where
  "splitlines_from cur [] = (if cur = [] then [] else [cur])"
| "splitlines_from cur [c] = (if linebreak c then [cur] else [cur @ [c]])"
| "splitlines_from cur (c # d # cs) =
     (if of_char c = (13 :: nat) \<and> of_char d = (10 :: nat) then cur # splitlines_from [] cs
      else if linebreak c then cur # splitlines_from [] (d # cs)
      else splitlines_from (cur @ [c]) (d # cs))"

definition splitlines :: "string \<Rightarrow> string list" where
  "splitlines s = splitlines_from [] s"

definition str_list :: "string list \<Rightarrow> pyval" where
  "str_list xs = PList (map PStr xs)"

definition get_environment_info :: "host \<Rightarrow> pyexn + pydict" where
  "get_environment_info h =
     (let info = [(''argv'', str_list (sys_argv h))];
          info = (case sys_orig_argv h of
                    Some a \<Rightarrow> dict_set info ''orig_argv'' (str_list a)
                  | None \<Rightarrow> info);
          info = dict_set info ''platform'' (PStr (sys_platform h));
          info = dict_set info ''platform_info'' (PStr (platform_platform h));
          info = dict_set info ''python_version'' (PStr (sys_version h));
          info = dict_set info ''python_implementation'' (PStr (implementation_name h));
          info = dict_set info ''python_executable'' (PStr (sys_executable h));
          info = dict_set info ''cwd'' (PStr (getcwd h));
          info = dict_set info ''hostname'' (PStr (platform_node h));
          info = dict_set info ''python_path'' (str_list (sys_path h));
          info = dict_set info ''cpu_count'' (PInt (cpu_count h));
          info = dict_set info ''user''
                   (case getuser h of Some u \<Rightarrow> PStr u | None \<Rightarrow> PStr [])
      in case build_hash_file h of
           None \<Rightarrow> Inr info
         | Some TextDir \<Rightarrow> Inl IsADirectoryError
         | Some (TextFile text) \<Rightarrow>
             (case splitlines text of
                [] \<Rightarrow> Inl IndexError
              | docker_build_hash # _ \<Rightarrow>
                  Inr (dict_set info ''git_hash_at_docker_build'' (PStr docker_build_hash))))"

definition startswith :: "string \<Rightarrow> string \<Rightarrow> bool" where
  "startswith s pre = (take (length pre) s = pre)"

definition get_environment_vars :: "(string \<times> string) list \<Rightarrow> string list option \<Rightarrow> pydict" where
  "get_environment_vars environ extra_environment_variables =
     (let var_list = [''CUDA_VISIBLE_DEVICES'', ''VIRTUAL_ENV'', ''PYENV_VIRTUAL_ENV'',
                      ''PYTHONPATH''];
          var_list = (if ''SLURM_JOB_ID'' \<in> set (map fst environ)
                      then var_list @ filter (\<lambda>v. startswith v ''SLURM'') (map fst environ)
                      else var_list);
          var_list = (case extra_environment_variables of
                        Some extra \<Rightarrow> var_list @ extra
                      | None \<Rightarrow> var_list)
      in fold (\<lambda>var vars_dict.
                 dict_set vars_dict var
                   (case map_of environ var of Some x \<Rightarrow> PStr x | None \<Rightarrow> PNone))
           var_list [])"

section \<open>\<^verbatim>\<open>seed_tasks\<close>\<close>

text \<open>
  \<open>randint\<close> is the number \<^verbatim>\<open>random.randint(0, 1000000)\<close> would return. The \<^verbatim>\<open>random\<close>
  module takes the seed first; the wrapper passes integers only, which \<^verbatim>\<open>random.seed\<close>
  accepts. Then each optional library that is present receives the seed, in the order
  of the source, and the first one that refuses it ends the function with its exception.
\<close>

definition seed_library ::
  "bool \<Rightarrow> (pyval \<Rightarrow> pyexn option) \<Rightarrow> string \<Rightarrow> pyval \<Rightarrow> world \<Rightarrow> unit outcome" where
  "seed_library present set_seed library seed w =
     (if present then
        (case set_seed seed of
           Some e \<Rightarrow> Raise e w
         | None \<Rightarrow> Return () (w\<lparr>rng := dict_set (rng w) library seed\<rparr>))
      else Return () w)"

definition seed_tasks :: "pylib \<Rightarrow> int \<Rightarrow> pyval \<Rightarrow> world \<Rightarrow> pyval outcome" where
  "seed_tasks L randint seed w =
     (let seed = (if seed = PNone then PInt randint else seed);
          w = w\<lparr>rng := dict_set (rng w) ''random'' seed\<rparr>
      in case seed_library (have_numpy L) (np_random_seed L) ''numpy'' seed w of
           Raise e w \<Rightarrow> Raise e w
         | Return _ w \<Rightarrow>
             (case seed_library (have_tensorflow L) (tf_set_seed L) ''tensorflow'' seed w of
                Raise e w \<Rightarrow> Raise e w
              | Return _ w \<Rightarrow>
                  (case seed_library (have_torch L) (torch_manual_seed L) ''torch'' seed w of
                     Raise e w \<Rightarrow> Raise e w
                   | Return _ w \<Rightarrow> Return seed w)))"

section \<open>\<^verbatim>\<open>tracked\<close>: the options and their validation\<close>

record config =
  literal_directory :: "pyval option"
  directory_parameter :: "string option"
  subdirectory_name_parameter :: "string option"
  directory_injection_parameter :: "string option"
  include_timestamp :: bool
  include_uuid :: bool
  record_filename :: "string option"
  extra_modules :: "string list option"
  extra_environment_variables :: "string list option"
  seed_parameter :: "string option"
  disable_git_tracking :: bool
  allow_dirty_repo :: bool
  include_package_inventory :: bool
  create_parents :: bool
  require_empty_directory :: bool
  chain_records :: bool

text \<open>
  The decorated function: its name and module, the parameter names of its signature,
  \<^verbatim>\<open>signature.bind\<close> followed by \<^verbatim>\<open>apply_defaults\<close> (\<open>None\<close> where \<^verbatim>\<open>bind\<close> raises
  \<^verbatim>\<open>TypeError\<close>), and its body, which receives the bound arguments. The body can change
  the objects it is passed in place: \<open>fn_leaves\<close> gives, parameter by parameter, the
  state in which the call leaves the object it received for that parameter. An object
  of a class without methods that change it (\<^verbatim>\<open>None\<close>, a \<^verbatim>\<open>bool\<close>, an \<^verbatim>\<open>int\<close>, a \<^verbatim>\<open>str\<close>,
  a \<^verbatim>\<open>Path\<close>) stays as it is whatever \<open>fn_leaves\<close> says, and other objects are reached by
  the function through its arguments only.
\<close>

record pyfunction =
  fn_name :: string
  fn_module :: string
  fn_parameters :: "string list"
  fn_bind :: "pyval list \<Rightarrow> pydict \<Rightarrow> pydict option"
  fn_body :: "pydict \<Rightarrow> world \<Rightarrow> pyval outcome"
  fn_leaves :: "pydict \<Rightarrow> world \<Rightarrow> pydict"

text \<open>
  What the decorator finds out about the function and the installation:
  \<open>git_info_for m\<close> is the result of \<^verbatim>\<open>get_git_info(m, allow_dirty=allow_dirty_repo)\<close>.
\<close>

record site =
  host_info :: host
  inspect_getsourcefile :: pyval
  inspect_getmodule :: "string option"
  git_info_for :: "string \<Rightarrow> pyexn + pyval"
  installed_packages :: pyval

text \<open>The variables the wrapper closes over.\<close>

record closure =
  options :: config
  func :: pyfunction
  source_file :: pyval
  git_info :: pyval
  extra_modules_git_info :: pyval
  environment_info :: pydict
  package_inventory :: pyval
  record_name_local :: string

definition missing :: "string option \<Rightarrow> string list \<Rightarrow> bool" where
  "missing parameter names =
     (case parameter of None \<Rightarrow> False | Some p \<Rightarrow> \<not> List.member names p)"

fun extra_git :: "(string \<Rightarrow> pyexn + pyval) \<Rightarrow> string list \<Rightarrow> pydict \<Rightarrow> pyexn + pydict" where
  "extra_git g [] acc = Inr acc"
| "extra_git g (m # ms) acc =
     (case g m of Inl e \<Rightarrow> Inl e | Inr r \<Rightarrow> extra_git g ms (dict_set acc m r))"

definition decorator :: "config \<Rightarrow> site \<Rightarrow> pyfunction \<Rightarrow> pyexn + closure" where
  "decorator cfg s function =
     (if missing (directory_parameter cfg) (fn_parameters function) then Inl ValueError
      else if missing (subdirectory_name_parameter cfg) (fn_parameters function)
        then Inl ValueError
      else if missing (directory_injection_parameter cfg) (fn_parameters function)
        then Inl ValueError
      else if missing (seed_parameter cfg) (fn_parameters function) then Inl ValueError
      else
        (case (if \<not> disable_git_tracking cfg
               then (case inspect_getmodule s of
                       None \<Rightarrow> Inl RuntimeError
                     | Some module \<Rightarrow> git_info_for s module)
               else Inr PNone) of
           Inl e \<Rightarrow> Inl e
         | Inr git \<Rightarrow>
             (case (case extra_modules cfg of
                      None \<Rightarrow> Inr []
                    | Some ms \<Rightarrow> extra_git (git_info_for s) ms []) of
                Inl e \<Rightarrow> Inl e
              | Inr extra \<Rightarrow>
                  (case get_environment_info (host_info s) of
                     Inl e \<Rightarrow> Inl e
                   | Inr env \<Rightarrow>
                       Inr \<lparr>options = cfg, func = function,
                            source_file = inspect_getsourcefile s,
                            git_info = git,
                            extra_modules_git_info = PDict extra,
                            environment_info = env,
                            package_inventory =
                              (if include_package_inventory cfg
                               then installed_packages s else PNone),
                            record_name_local =
                              (case record_filename cfg of
                                 None \<Rightarrow> fn_name function @ ''_record''
                               | Some f \<Rightarrow>
                                   (if f = [] then fn_name function @ ''_record''
                                    else f))\<rparr>))))"

definition tracked :: "config \<Rightarrow> pyexn + (site \<Rightarrow> pyfunction \<Rightarrow> pyexn + closure)" where
  "tracked cfg =
     (if (literal_directory cfg = None) = (directory_parameter cfg = None)
        then Inl TypeError
      else if include_timestamp cfg \<and> include_uuid cfg then Inl ValueError
      else if (include_timestamp cfg \<or> include_uuid cfg)
              \<and> directory_injection_parameter cfg = None
              \<and> directory_parameter cfg = None
              \<and> subdirectory_name_parameter cfg = None
        then Inl TypeError
      else Inr (decorator cfg))"

section \<open>\<^verbatim>\<open>wrapper\<close>: one call of the decorated function\<close>

text \<open>
  What one call brings with it: the arguments, the identifier \<^verbatim>\<open>uuid4()\<close> returns, the
  start time as \<^verbatim>\<open>str\<close> prints it and as \<^verbatim>\<open>strftime(_TIMESTAMP_FMT)\<close> formats it, the
  environment variables, the number \<^verbatim>\<open>random.randint\<close> would return, and the end time
  and the run time as \<^verbatim>\<open>str\<close> prints them.
\<close>

record call =
  args :: "pyval list"
  kwargs :: pydict
  job_uuid :: string
  start_time :: string
  timestamp :: string
  environ :: "(string \<times> string) list"
  randint :: int
  end_time :: string
  run_time :: string

text \<open>
  Binding: when \<^verbatim>\<open>bind\<close> raises and an injection parameter is configured, \<^verbatim>\<open>None\<close> is
  passed for that parameter and \<^verbatim>\<open>bind\<close> is tried once more.
\<close>

definition bind_arguments :: "closure \<Rightarrow> call \<Rightarrow> pyexn + pydict" where
  "bind_arguments cl c =
     (case fn_bind (func cl) (args c) (kwargs c) of
        Some bound \<Rightarrow> Inr bound
      | None \<Rightarrow>
          (case directory_injection_parameter (options cl) of
             Some dip \<Rightarrow>
               (case fn_bind (func cl) (args c) (dict_set (kwargs c) dip PNone) of
                  Some bound \<Rightarrow> Inr bound
                | None \<Rightarrow> Inl TypeError)
           | None \<Rightarrow> Inl TypeError))"

definition format_arguments :: "pylib \<Rightarrow> pydict \<Rightarrow> pydict" where
  "format_arguments L arguments = map (\<lambda>(k, v). (k, format_json L v (Some 200))) arguments"

text \<open>The record as it stands once the arguments are bound.\<close>

definition first_record :: "pylib \<Rightarrow> closure \<Rightarrow> call \<Rightarrow> pydict \<Rightarrow> pydict" where
  "first_record L cl c bound =
     (let record = [(''uuid'', PStr (job_uuid c))];
          record = dict_set record ''timing'' (PDict [(''start_time'', PStr (start_time c))]);
          record = dict_set record ''environment''
                     (PDict (dict_set (environment_info cl) ''environment_variables''
                        (PDict (get_environment_vars (environ c)
                                  (extra_environment_variables (options cl))))));
          record = (if include_package_inventory (options cl)
                    then dict_set record ''package_inventory'' (package_inventory cl)
                    else record);
          record = dict_set record ''called_function''
                     (PDict [(''name'', PStr (fn_name (func cl))),
                             (''module'', PStr (fn_module (func cl))),
                             (''source_file'', source_file cl),
                             (''parameters'', PDict (format_arguments L bound))]);
          record = (if \<not> disable_git_tracking (options cl)
                    then dict_set record ''tracked_module'' (git_info cl)
                    else record);
          record = (if extra_modules (options cl) \<noteq> None
                    then dict_set record ''extra_tracked_modules'' (extra_modules_git_info cl)
                    else record)
      in record)"

text \<open>The output directory: the base directory, the subdirectory, the suffix.\<close>

definition base_directory :: "closure \<Rightarrow> pydict \<Rightarrow> pyexn + path" where
  "base_directory cl bound =
     (case literal_directory (options cl) of
        Some d \<Rightarrow> Path_of d
      | None \<Rightarrow>
          (case directory_parameter (options cl) of
             None \<Rightarrow> Inl NameError
           | Some output_dir_parameter_loc \<Rightarrow>
               (case dict_get bound output_dir_parameter_loc of
                  Inl e \<Rightarrow> Inl e
                | Inr v \<Rightarrow> Path_of v)))"

definition with_subdirectory :: "closure \<Rightarrow> pydict \<Rightarrow> path \<Rightarrow> world \<Rightarrow> path outcome" where
  "with_subdirectory cl bound record_dir w =
     (case subdirectory_name_parameter (options cl) of
        None \<Rightarrow> Return record_dir w
      | Some sp \<Rightarrow>
          (case mkdir w record_dir (create_parents (options cl)) of
             Inl e \<Rightarrow> Raise e w
           | Inr w' \<Rightarrow>
               (case dict_get bound sp of
                  Inl e \<Rightarrow> Raise e w'
                | Inr subdir_name \<Rightarrow>
                    (case truediv record_dir subdir_name of
                       Inl e \<Rightarrow> Raise e w'
                     | Inr record_dir' \<Rightarrow> Return record_dir' w'))))"

definition append_suffix :: "closure \<Rightarrow> call \<Rightarrow> world \<Rightarrow> path \<Rightarrow> pyexn + path" where
  "append_suffix cl c w record_dir =
     (if include_timestamp (options cl)
      then with_name (resolve w record_dir) (name record_dir @ ''_'' @ timestamp c)
      else if include_uuid (options cl)
      then with_name (resolve w record_dir) (name record_dir @ ''_'' @ job_uuid c)
      else Inr record_dir)"

definition resolve_directory :: "closure \<Rightarrow> call \<Rightarrow> pydict \<Rightarrow> world \<Rightarrow> path outcome" where
  "resolve_directory cl c bound w =
     (case base_directory cl bound of
        Inl e \<Rightarrow> Raise e w
      | Inr record_dir \<Rightarrow>
          (case with_subdirectory cl bound record_dir w of
             Raise e w' \<Rightarrow> Raise e w'
           | Return record_dir' w' \<Rightarrow>
               (case append_suffix cl c w' record_dir' of
                  Inl e \<Rightarrow> Raise e w'
                | Inr record_dir'' \<Rightarrow> Return record_dir'' w')))"

text \<open>The seed. \<^verbatim>\<open>bool\<close> is a subclass of \<^verbatim>\<open>int\<close>, so \<^verbatim>\<open>isinstance\<close> accepts both.\<close>

definition isinstance_int :: "pyval \<Rightarrow> bool" where
  "isinstance_int v = (case v of PInt _ \<Rightarrow> True | PBool _ \<Rightarrow> True | _ \<Rightarrow> False)"

definition seed_argument :: "closure \<Rightarrow> pydict \<Rightarrow> pyexn + pyval" where
  "seed_argument cl bound =
     (case seed_parameter (options cl) of
        None \<Rightarrow> Inr PNone
      | Some sp \<Rightarrow>
          (case dict_get bound sp of
             Inl e \<Rightarrow> Inl e
           | Inr seed_ \<Rightarrow>
               (if \<not> isinstance_int seed_ \<and> seed_ \<noteq> PNone then Inl TypeError
                else Inr seed_)))"

text \<open>The two injections into the bound arguments: the seed, then the directory.\<close>

definition inject :: "closure \<Rightarrow> pydict \<Rightarrow> pyval \<Rightarrow> path \<Rightarrow> pydict" where
  "inject cl bound seed record_dir =
     (let arguments = (case seed_parameter (options cl) of
                         Some sp \<Rightarrow> dict_set bound sp seed
                       | None \<Rightarrow> bound)
      in case directory_injection_parameter (options cl) of
           Some dip \<Rightarrow> dict_set arguments dip (PPath record_dir)
         | None \<Rightarrow>
             (if include_uuid (options cl) \<or> include_timestamp (options cl) then
                (case subdirectory_name_parameter (options cl) of
                   Some sp \<Rightarrow> dict_set arguments sp (PStr (name record_dir))
                 | None \<Rightarrow>
                     (case directory_parameter (options cl) of
                        Some dp \<Rightarrow> dict_set arguments dp (PPath record_dir)
                      | None \<Rightarrow> arguments))
              else arguments))"

text \<open>
  The first part of the wrapper, up to the injections: it yields the record, the
  arguments as bound, the arguments the function will be called with, and the output
  directory.
\<close>

record prepared =
  pr_record :: pydict
  pr_bound :: pydict
  pr_arguments :: pydict
  pr_seed :: pyval
  pr_record_dir :: path

definition prepare :: "pylib \<Rightarrow> closure \<Rightarrow> call \<Rightarrow> world \<Rightarrow> prepared outcome" where
  "prepare L cl c w =
     (case bind_arguments cl c of
        Inl e \<Rightarrow> Raise e w
      | Inr bound \<Rightarrow>
          (case resolve_directory cl c bound w of
             Raise e w1 \<Rightarrow> Raise e w1
           | Return record_dir w1 \<Rightarrow>
               (case seed_argument cl bound of
                  Inl e \<Rightarrow> Raise e w1
                | Inr seed_ \<Rightarrow>
                    (case seed_tasks L (randint c) seed_ w1 of
                       Raise e w2 \<Rightarrow> Raise e w2
                     | Return seed w2 \<Rightarrow>
                         Return \<lparr>pr_record = dict_set (first_record L cl c bound) ''seed'' seed,
                                 pr_bound = bound,
                                 pr_arguments = inject cl bound seed record_dir,
                                 pr_seed = seed,
                                 pr_record_dir = record_dir\<rparr> w2))))"

text \<open>
  The second part: the directory is made and checked, the altered parameters are
  recorded, the record path and the chaining are decided, and the record is written.
\<close>

definition make_directory :: "closure \<Rightarrow> path \<Rightarrow> world \<Rightarrow> unit outcome" where
  "make_directory cl record_dir w =
     (case mkdir w record_dir (create_parents (options cl)) of
        Inl e \<Rightarrow> Raise e w
      | Inr w' \<Rightarrow>
          (if require_empty_directory (options cl) then
             (case iterdir w' record_dir of
                Inl e \<Rightarrow> Raise e w'
              | Inr [] \<Rightarrow> Return () w'
              | Inr (_ # _) \<Rightarrow> Raise FileExistsError w')
           else Return () w'))"

text \<open>The assignment \<^verbatim>\<open>record[k1][k2] = v\<close>.\<close>

definition set_in :: "pydict \<Rightarrow> string \<Rightarrow> string \<Rightarrow> pyval \<Rightarrow> pydict" where
  "set_in record k1 k2 v =
     (case dict_lookup record k1 of
        Some (PDict d) \<Rightarrow> dict_set record k1 (PDict (dict_set d k2 v))
      | _ \<Rightarrow> record)"

definition full_record_path :: "closure \<Rightarrow> path \<Rightarrow> pyexn + path" where
  "full_record_path cl record_dir =
     json_name (joinpath record_dir (parse_path (record_name_local cl)))"

definition chained :: "pyval \<Rightarrow> pydict \<Rightarrow> pyval" where
  "chained previous_record record =
     (case previous_record of
        PList rs \<Rightarrow> PList (rs @ [PDict record])
      | _ \<Rightarrow> PList [previous_record, PDict record])"

definition out_record :: "bool \<Rightarrow> pyval \<Rightarrow> pydict \<Rightarrow> pyval" where
  "out_record chaining previous_record record =
     (if chaining then chained previous_record record else PDict record)"

record written =
  wr_record :: pydict
  wr_path :: path
  wr_chaining :: bool
  wr_previous_record :: pyval

definition pre_write :: "pylib \<Rightarrow> closure \<Rightarrow> prepared \<Rightarrow> world \<Rightarrow> written outcome" where
  "pre_write L cl pr w =
     (case make_directory cl (pr_record_dir pr) w of
        Raise e w1 \<Rightarrow> Raise e w1
      | Return _ w1 \<Rightarrow>
          (let record = set_in (pr_record pr) ''called_function'' ''altered_parameters''
                          (PDict (format_arguments L (pr_arguments pr)))
           in case full_record_path cl (pr_record_dir pr) of
                Inl e \<Rightarrow> Raise e w1
              | Inr path \<Rightarrow>
                  (case (if chain_records (options cl) \<and> exists w1 path
                         then (case load w1 path of
                                 Inl e \<Rightarrow> Inl e
                               | Inr previous_record \<Rightarrow> Inr (True, previous_record))
                         else Inr (False, PNone)) of
                     Inl e \<Rightarrow> Raise e w1
                   | Inr (chaining, previous_record) \<Rightarrow>
                       (case write_record L w1 path
                               (out_record chaining previous_record record) of
                          Raise e w2 \<Rightarrow> Raise e w2
                        | Return _ w2 \<Rightarrow>
                            Return \<lparr>wr_record = record, wr_path = path,
                                    wr_chaining = chaining,
                                    wr_previous_record = previous_record\<rparr> w2))))"

text \<open>
  The record and the call share objects. \<^verbatim>\<open>_format_json\<close> returns the object it was
  given when that object can be encoded within the limit, so an entry of \<^verbatim>\<open>parameters\<close>
  or \<^verbatim>\<open>altered_parameters\<close> can be the very object that is passed to the function. Such
  an entry shows, when the record is written again after the call, the state in which
  the call left that object, whatever its length and whether or not it can still be
  encoded. An entry of \<^verbatim>\<open>parameters\<close> shares the object of the call only when no
  injection has put another object in its place.
\<close>

definition mutable :: "pyval \<Rightarrow> bool" where
  "mutable v = (case v of PList _ \<Rightarrow> True | PDict _ \<Rightarrow> True | PObj _ \<Rightarrow> True | _ \<Rightarrow> False)"

definition shared :: "pylib \<Rightarrow> pyval \<Rightarrow> bool" where
  "shared L v = (mutable v \<and> format_json L v (Some 200) = v)"

definition entry_after :: "pylib \<Rightarrow> pydict \<Rightarrow> pydict \<Rightarrow> string \<times> pyval \<Rightarrow> string \<times> pyval" where
  "entry_after L arguments left kv =
     (fst kv,
      if shared L (snd kv) \<and> dict_lookup arguments (fst kv) = Some (snd kv)
      then (case dict_lookup left (fst kv) of Some v' \<Rightarrow> v' | None \<Rightarrow> snd kv)
      else format_json L (snd kv) (Some 200))"

definition arguments_after :: "pylib \<Rightarrow> pydict \<Rightarrow> pydict \<Rightarrow> pydict \<Rightarrow> pydict" where
  "arguments_after L arguments left entries = map (entry_after L arguments left) entries"

definition record_after :: "pylib \<Rightarrow> prepared \<Rightarrow> pydict \<Rightarrow> pydict \<Rightarrow> pydict" where
  "record_after L pr left record =
     set_in
       (set_in record ''called_function'' ''parameters''
          (PDict (arguments_after L (pr_arguments pr) left (pr_bound pr))))
       ''called_function'' ''altered_parameters''
       (PDict (arguments_after L (pr_arguments pr) left (pr_arguments pr)))"

text \<open>The record after the call, with the end time and the run time.\<close>

definition final_record :: "call \<Rightarrow> pydict \<Rightarrow> pydict" where
  "final_record c record =
     set_in (set_in record ''timing'' ''end_time'' (PStr (end_time c)))
       ''timing'' ''run_time'' (PStr (run_time c))"

text \<open>
  The third part, on what the call of the function gave and on the state in which it
  left its arguments: an exception goes on to the caller; after a return the record is
  written again, chained as decided before the call, and the result is returned.
\<close>

definition post_write ::
  "pylib \<Rightarrow> call \<Rightarrow> prepared \<Rightarrow> written \<Rightarrow> pydict \<Rightarrow> pyval outcome \<Rightarrow> pyval outcome" where
  "post_write L c pr wr left called =
     (case called of
        Raise e w3 \<Rightarrow> Raise e w3
      | Return result w3 \<Rightarrow>
          (case write_record L w3 (wr_path wr)
                  (out_record (wr_chaining wr) (wr_previous_record wr)
                     (final_record c (record_after L pr left (wr_record wr)))) of
             Raise e w4 \<Rightarrow> Raise e w4
           | Return _ w4 \<Rightarrow> Return result w4))"

definition wrapper :: "pylib \<Rightarrow> closure \<Rightarrow> call \<Rightarrow> world \<Rightarrow> pyval outcome" where
  "wrapper L cl c w =
     (case prepare L cl c w of
        Raise e w1 \<Rightarrow> Raise e w1
      | Return pr w1 \<Rightarrow>
          (case pre_write L cl pr w1 of
             Raise e w2 \<Rightarrow> Raise e w2
           | Return wr w2 \<Rightarrow>
               post_write L c pr wr (fn_leaves (func cl) (pr_arguments pr) w2)
                 (fn_body (func cl) (pr_arguments pr) w2)))"

section \<open>An instance of the library, for evaluation\<close>

text \<open>
  A plain encoder for values whose strings need no escaping: the text \<^verbatim>\<open>json.dumps\<close>
  and \<^verbatim>\<open>repr\<close> give for them. The theorems below hold for every library; this one
  serves to evaluate them on concrete calls.
\<close>

function digits :: "int \<Rightarrow> string" where
  "digits n =
     (if n < 10 then [char_of (48 + n)]
      else digits (n div 10) @ [char_of (48 + n mod 10)])"
  by pat_completeness auto
termination
  by (relation "measure nat") auto

declare digits.simps [simp del]

definition str_int :: "int \<Rightarrow> string" where
  "str_int i = (if i < 0 then CHR ''-'' # digits (- i) else digits i)"

fun join :: "string \<Rightarrow> string list \<Rightarrow> string" where
  "join sep [] = []"
| "join sep [x] = x"
| "join sep (x # y # ys) = x @ sep @ join sep (y # ys)"

definition str_path :: "path \<Rightarrow> string" where
  "str_path p =
     (case anchor p of
        Slash \<Rightarrow> CHR ''/'' # join ''/'' (parts p)
      | SlashSlash \<Rightarrow> ''//'' @ join ''/'' (parts p)
      | Relative \<Rightarrow> (if parts p = [] then ''.'' else join ''/'' (parts p)))"

fun encodable :: "pyval \<Rightarrow> bool" where
  "encodable (PList xs) = list_all encodable xs"
| "encodable (PDict d) = list_all (\<lambda>kv. encodable (snd kv)) d"
| "encodable (PPath p) = False"
| "encodable (PObj r) = False"
| "encodable v = True"

fun json_text :: "pyval \<Rightarrow> string" where
  "json_text PNone = ''null''"
| "json_text (PBool b) = (if b then ''true'' else ''false'')"
| "json_text (PInt i) = str_int i"
| "json_text (PStr s) = CHR 0x22 # s @ [CHR 0x22]"
| "json_text (PList xs) = ''['' @ join '', '' (map json_text xs) @ '']''"
| "json_text (PDict d) =
     ''{'' @ join '', ''
        (map (\<lambda>kv. CHR 0x22 # fst kv @ [CHR 0x22] @ '': '' @ json_text (snd kv)) d) @ ''}''"
| "json_text (PPath p) = []"
| "json_text (PObj r) = []"

fun repr_text :: "pyval \<Rightarrow> string" where
  "repr_text PNone = ''None''"
| "repr_text (PBool b) = (if b then ''True'' else ''False'')"
| "repr_text (PInt i) = str_int i"
| "repr_text (PStr s) = CHR 0x27 # s @ [CHR 0x27]"
| "repr_text (PList xs) = ''['' @ join '', '' (map repr_text xs) @ '']''"
| "repr_text (PDict d) =
     ''{'' @ join '', ''
        (map (\<lambda>kv. CHR 0x27 # fst kv @ [CHR 0x27] @ '': '' @ repr_text (snd kv)) d) @ ''}''"
| "repr_text (PPath p) = ''PosixPath('' @ CHR 0x27 # str_path p @ [CHR 0x27] @ '')''"
| "repr_text (PObj r) = r"

text \<open>
  \<^verbatim>\<open>np.random.seed\<close> takes an integer from \<open>0\<close> to \<open>2**32 - 1\<close> and raises \<^verbatim>\<open>ValueError\<close>
  for any other; \<^verbatim>\<open>torch.manual_seed\<close> takes an integer from \<open>-2**63\<close> to \<open>2**64 - 1\<close> and
  raises \<^verbatim>\<open>RuntimeError\<close> for any other. A \<^verbatim>\<open>bool\<close> counts as \<open>1\<close> or \<open>0\<close>.
\<close>

definition as_int :: "pyval \<Rightarrow> int option" where
  "as_int v =
     (case v of PInt i \<Rightarrow> Some i | PBool b \<Rightarrow> Some (if b then 1 else 0) | _ \<Rightarrow> None)"

definition seed_within :: "int \<Rightarrow> int \<Rightarrow> pyexn \<Rightarrow> pyval \<Rightarrow> pyexn option" where
  "seed_within lo hi e v =
     (case as_int v of
        None \<Rightarrow> Some TypeError
      | Some i \<Rightarrow> (if lo \<le> i \<and> i \<le> hi then None else Some e))"

definition plain :: pylib where
  "plain = \<lparr>json_dumps = (\<lambda>v. if encodable v then Some (json_text v) else None),
            py_repr = repr_text,
            have_numpy = True, have_tensorflow = False, have_torch = False,
            np_random_seed = seed_within 0 4294967295 ValueError,
            tf_set_seed = (\<lambda>v. None),
            torch_manual_seed =
              seed_within (- 9223372036854775808) 18446744073709551615 RuntimeError\<rparr>"

section \<open>Concrete configurations, for evaluation\<close>

text \<open>The options at their default values: no directory is configured yet.\<close>

definition defaults :: config where
  "defaults =
     \<lparr>literal_directory = None, directory_parameter = None,
      subdirectory_name_parameter = None, directory_injection_parameter = None,
      include_timestamp = False, include_uuid = False, record_filename = None,
      extra_modules = None, extra_environment_variables = None, seed_parameter = None,
      disable_git_tracking = False, allow_dirty_repo = True,
      include_package_inventory = True, create_parents = False,
      require_empty_directory = False, chain_records = False\<rparr>"

text \<open>
  The invariants of the configuration in the words of the specification: exactly one
  of the static output path and the dynamic output-path parameter; at most one
  uniqueness suffix; and with a suffix, a parameter that hands the directory to the
  callee.
\<close>

definition valid_configuration :: "config \<Rightarrow> bool" where
  "valid_configuration cfg =
     (((literal_directory cfg \<noteq> None \<and> directory_parameter cfg = None) \<or>
       (literal_directory cfg = None \<and> directory_parameter cfg \<noteq> None)) \<and>
      \<not> (include_timestamp cfg \<and> include_uuid cfg) \<and>
      (\<not> (include_timestamp cfg \<or> include_uuid cfg) \<or>
       directory_parameter cfg \<noteq> None \<or>
       subdirectory_name_parameter cfg \<noteq> None \<or>
       directory_injection_parameter cfg \<noteq> None))"

text \<open>A host without the build-hash marker file.\<close>

definition workstation :: host where
  "workstation =
     \<lparr>sys_argv = [''train.py''], sys_orig_argv = Some [''python'', ''train.py''],
      sys_platform = ''linux'', platform_platform = ''Linux-6.1-x86_64'',
      sys_version = ''3.11.4'', implementation_name = ''cpython'',
      sys_executable = ''/usr/bin/python'', getcwd = ''/data'',
      platform_node = ''node1'', sys_path = [''/proj''], cpu_count = 8,
      getuser = Some ''ada'', build_hash_file = None\<rparr>"

section \<open>A concrete function, installation and call, for evaluation\<close>

text \<open>
  Binding for parameters that can be passed by position or by keyword, each with an
  optional default: too many positional arguments, an unknown keyword, a parameter
  given twice and a missing parameter without default make \<^verbatim>\<open>bind\<close> raise.
\<close>

definition dict_del :: "pydict \<Rightarrow> string \<Rightarrow> pydict" where
  "dict_del d k = filter (\<lambda>kv. fst kv \<noteq> k) d"

fun bind_simple :: "(string \<times> pyval option) list \<Rightarrow> pyval list \<Rightarrow> pydict \<Rightarrow> pydict option" where
  "bind_simple [] as kw = (if as = [] \<and> kw = [] then Some [] else None)"
| "bind_simple ((p, dflt) # ps) (a # as) kw =
     (case dict_lookup kw p of
        Some _ \<Rightarrow> None
      | None \<Rightarrow> map_option (Cons (p, a)) (bind_simple ps as kw))"
| "bind_simple ((p, dflt) # ps) [] kw =
     (case dict_lookup kw p of
        Some v \<Rightarrow> map_option (Cons (p, v)) (bind_simple ps [] (dict_del kw p))
      | None \<Rightarrow>
          (case dflt of
             Some d \<Rightarrow> map_option (Cons (p, d)) (bind_simple ps [] kw)
           | None \<Rightarrow> None))"

text \<open>
  \<^verbatim>\<open>def some_fun(x, out=None, name='run', seed=None, where=None): return locals()\<close>:
  the function returns the arguments it observes and leaves them and the world alone.
\<close>

definition some_fun :: pyfunction where
  "some_fun =
     \<lparr>fn_name = ''some_fun'', fn_module = ''__main__'',
      fn_parameters = [''x'', ''out'', ''name'', ''seed'', ''where''],
      fn_bind = bind_simple [(''x'', None), (''out'', Some PNone),
                             (''name'', Some (PStr ''run'')), (''seed'', Some PNone),
                             (''where'', Some PNone)],
      fn_body = (\<lambda>arguments w. Return (PDict arguments) w),
      fn_leaves = (\<lambda>arguments w. arguments)\<rparr>"

text \<open>The same function with a body that raises.\<close>

definition failing_fun :: pyfunction where
  "failing_fun = some_fun\<lparr>fn_body := (\<lambda>arguments w. Raise (Raised ''boom'') w)\<rparr>"


text \<open>
  The same function with a body that removes the directory \<^verbatim>\<open>/data/run\<close> with all it
  holds, on a disk that holds nothing else under \<^verbatim>\<open>/data\<close>, and returns \<open>7\<close>.
\<close>

definition removing_fun :: pyfunction where
  "removing_fun =
     some_fun\<lparr>fn_body := (\<lambda>arguments w. Return (PInt 7) (w\<lparr>files := [([''data''], Dir)]\<rparr>))\<rparr>"

definition installation :: site where
  "installation =
     \<lparr>host_info = workstation,
      inspect_getsourcefile = PStr ''/proj/train.py'',
      inspect_getmodule = Some ''__main__'',
      git_info_for = (\<lambda>m. Inr (PDict [(''name'', PStr m),
                                         (''git_commit_hash'', PStr ''4f2a9c'')])),
      installed_packages = PDict [(''numpy'', PStr ''1.26'')]\<rparr>"

text \<open>The closure of the wrapper that \<^verbatim>\<open>tracked(...)(function)\<close> returns on this installation.\<close>

definition decorated :: "config \<Rightarrow> pyfunction \<Rightarrow> closure option" where
  "decorated cfg function =
     (case tracked cfg of
        Inl _ \<Rightarrow> None
      | Inr d \<Rightarrow> (case d installation function of Inl _ \<Rightarrow> None | Inr cl \<Rightarrow> Some cl))"

definition call4 :: call where
  "call4 =
     \<lparr>args = [PInt 4], kwargs = [], job_uuid = ''2dddbaa6'',
      start_time = ''2024-05-01 10:00:00'', timestamp = ''2024_05_01_10_00_00'',
      environ = [(''PYTHONPATH'', ''/proj'')], randint = 272428,
      end_time = ''2024-05-01 10:00:05'', run_time = ''0:00:05''\<rparr>"

text \<open>A disk with the directory \<^verbatim>\<open>/data\<close>, which is also the working directory.\<close>

definition disk :: world where
  "disk = \<lparr>files = [([''data''], Dir)], cwd = [''data''], rng = []\<rparr>"

text \<open>The assignment \<^verbatim>\<open>record[k1][k2]\<close> read back.\<close>

definition get_in :: "pydict \<Rightarrow> string \<Rightarrow> string \<Rightarrow> pyval option" where
  "get_in record k1 k2 =
     (case dict_lookup record k1 of Some (PDict d) \<Rightarrow> dict_lookup d k2 | _ \<Rightarrow> None)"

text \<open>The same disk with a file \<^verbatim>\<open>/data/junk\<close> that is not JSON.\<close>

definition junk_disk :: world where
  "junk_disk = \<lparr>files = [([''data'', ''junk''], File None), ([''data''], Dir)],
                 cwd = [''data''], rng = []\<rparr>"

text \<open>What an outcome returned, and the world it left.\<close>

definition returned :: "'a outcome \<Rightarrow> 'a option" where
  "returned out = (case out of Return v _ \<Rightarrow> Some v | Raise _ _ \<Rightarrow> None)"

definition raised :: "'a outcome \<Rightarrow> pyexn option" where
  "raised out = (case out of Return _ _ \<Rightarrow> None | Raise e _ \<Rightarrow> Some e)"

definition world_after :: "'a outcome \<Rightarrow> world" where
  "world_after out = (case out of Return _ w \<Rightarrow> w | Raise _ w \<Rightarrow> w)"

section \<open>Notions for stating the properties\<close>

text \<open>
  Between two worlds: \<open>grown u v\<close> when \<open>v\<close> is \<open>u\<close> with directories added and nothing
  else changed; \<open>keeps_tree u v\<close> when the working directory is the same, every directory
  of \<open>u\<close> is a directory of \<open>v\<close> and every file of \<open>u\<close> is a file of \<open>v\<close>, with any
  content: what a function does that creates and writes files and directories, and
  deletes and renames none.
\<close>

definition grown :: "world \<Rightarrow> world \<Rightarrow> bool" where
  "grown u v =
     (cwd v = cwd u \<and>
      (\<forall>k. lookup v k = lookup u k \<or> (lookup u k = None \<and> lookup v k = Some Dir)))"

definition keeps_tree :: "world \<Rightarrow> world \<Rightarrow> bool" where
  "keeps_tree u v =
     (cwd v = cwd u \<and>
      (\<forall>k. lookup u k = Some Dir \<longrightarrow> lookup v k = Some Dir) \<and>
      (\<forall>k d. lookup u k = Some (File d) \<longrightarrow> (\<exists>d'. lookup v k = Some (File d'))))"

text \<open>The wrapper up to the call of the function: its first and second part.\<close>

definition before_call :: "pylib \<Rightarrow> closure \<Rightarrow> call \<Rightarrow> world \<Rightarrow> (prepared \<times> written) outcome" where
  "before_call L cl c w =
     (case prepare L cl c w of
        Raise e w1 \<Rightarrow> Raise e w1
      | Return pr w1 \<Rightarrow>
          (case pre_write L cl pr w1 of
             Raise e w2 \<Rightarrow> Raise e w2
           | Return wr w2 \<Rightarrow> Return (pr, wr) w2))"

text \<open>
  The document that the wrapper writes after the call, when the function was called in
  the world \<open>w2\<close>: the record with the arguments as the call left them and with the end
  time and the run time, chained as decided before the call.
\<close>

definition post_document ::
  "pylib \<Rightarrow> closure \<Rightarrow> call \<Rightarrow> prepared \<Rightarrow> written \<Rightarrow> world \<Rightarrow> pyval" where
  "post_document L cl c pr wr w2 =
     out_record (wr_chaining wr) (wr_previous_record wr)
       (final_record c
          (record_after L pr (fn_leaves (func cl) (pr_arguments pr) w2) (wr_record wr)))"


text \<open>What the call of the function gave, in a call of the wrapper that got as far.\<close>

definition called :: "pylib \<Rightarrow> closure \<Rightarrow> call \<Rightarrow> world \<Rightarrow> pyval outcome option" where
  "called L cl c w =
     (case before_call L cl c w of
        Raise _ _ \<Rightarrow> None
      | Return (pr, wr) w2 \<Rightarrow> Some (fn_body (func cl) (pr_arguments pr) w2))"



text \<open>The number of records a document holds: a list holds its elements.\<close>

definition records_in :: "pyval \<Rightarrow> nat" where
  "records_in doc = (case doc of PList rs \<Rightarrow> length rs | _ \<Rightarrow> 1)"

text \<open>
  The place of the record file of a call: where its record path leads once the output
  directory is made.
\<close>

definition record_key :: "pylib \<Rightarrow> closure \<Rightarrow> call \<Rightarrow> world \<Rightarrow> string list option" where
  "record_key L cl c w =
     (case prepare L cl c w of
        Raise _ _ \<Rightarrow> None
      | Return pr w1 \<Rightarrow>
          (case make_directory cl (pr_record_dir pr) w1 of
             Raise _ _ \<Rightarrow> None
           | Return _ w1' \<Rightarrow>
               (case full_record_path cl (pr_record_dir pr) of
                  Inl _ \<Rightarrow> None
                | Inr path \<Rightarrow>
                    (case locate w1' path of Inl _ \<Rightarrow> None | Inr k \<Rightarrow> Some k))))"

text \<open>
  The place of the record file when the record is written again: where the record path
  leads in the world the function left.
\<close>

definition rewrite_key :: "pylib \<Rightarrow> closure \<Rightarrow> call \<Rightarrow> world \<Rightarrow> string list option" where
  "rewrite_key L cl c w =
     (case before_call L cl c w of
        Raise _ _ \<Rightarrow> None
      | Return (pr, wr) w2 \<Rightarrow>
          (case locate (world_after (fn_body (func cl) (pr_arguments pr) w2)) (wr_path wr) of
             Inl _ \<Rightarrow> None
           | Inr k \<Rightarrow> Some k))"

text \<open>
  Calls made one after the other, each on the world the one before left, all returning
  and all with their record file at the place \<open>k\<close>, before and after the call of the
  function.
\<close>

fun successive :: "pylib \<Rightarrow> closure \<Rightarrow> string list \<Rightarrow> call list \<Rightarrow> world \<Rightarrow> world option" where
  "successive L cl k [] w = Some w"
| "successive L cl k (c # cs) w =
     (if record_key L cl c w = Some k \<and> rewrite_key L cl c w = Some k then
        (case wrapper L cl c w of
           Raise _ _ \<Rightarrow> None
         | Return _ w' \<Rightarrow> successive L cl k cs w')
      else None)"

section \<open>The value normalizer\<close>

text \<open>
  Claim C4. With the ceiling of 200 characters: a value that \<^verbatim>\<open>json.dumps\<close> encodes in at
  most 200 characters is returned unchanged; a value it cannot encode is replaced by its
  \<^verbatim>\<open>repr\<close> text when that text has at most 200 characters; and whenever the text at hand
  (encoded or \<^verbatim>\<open>repr\<close>) is longer than 200 characters, the result is the placeholder
  string, encodable or not.
\<close>

theorem format_json_ceiling:
  "(json_dumps L obj = Some s \<and> length s \<le> 200 \<longrightarrow> format_json L obj (Some 200) = obj) \<and>
   (json_dumps L obj = None \<and> length (py_repr L obj) \<le> 200 \<longrightarrow>
      format_json L obj (Some 200) = PStr (py_repr L obj)) \<and>
   (json_dumps L obj = Some s \<and> length s > 200 \<longrightarrow>
      format_json L obj (Some 200) = PStr ''<suppressed due to excessive length>'') \<and>
   (json_dumps L obj = None \<and> length (py_repr L obj) > 200 \<longrightarrow>
      format_json L obj (Some 200) = PStr ''<suppressed due to excessive length>'')"
  by (simp add: format_json_def suppressed_def)

theorem format_json_ceiling_witness:
  "format_json plain (PInt 4) (Some 200) = PInt 4 \<and>
   format_json plain (PObj ''<object>'') (Some 200) = PStr ''<object>'' \<and>
   format_json plain (PStr (replicate 200 (CHR ''a''))) (Some 200) =
     PStr ''<suppressed due to excessive length>'' \<and>
   format_json plain (PObj (replicate 201 (CHR ''x''))) (Some 200) =
     PStr ''<suppressed due to excessive length>''"
proof -
  let ?long = "PStr (replicate 200 (CHR ''a''))"
  have a: "json_dumps plain (PInt 4) = Some ''4'' \<and> length ''4'' \<le> 200"
    by code_simp
  have b: "json_dumps plain (PObj ''<object>'') = None \<and>
           length (py_repr plain (PObj ''<object>'')) \<le> 200 \<and>
           py_repr plain (PObj ''<object>'') = ''<object>''"
    by code_simp
  have c: "json_dumps plain ?long = Some (json_text ?long) \<and> length (json_text ?long) > 200"
    by code_simp
  have d: "json_dumps plain (PObj (replicate 201 (CHR ''x''))) = None \<and>
           length (py_repr plain (PObj (replicate 201 (CHR ''x'')))) > 200"
    by code_simp
  show ?thesis
    using a b c d
      format_json_ceiling [of plain "PInt 4" "''4''"]
      format_json_ceiling [of plain "PObj ''<object>''"]
      format_json_ceiling [of plain ?long "json_text ?long"]
      format_json_ceiling [of plain "PObj (replicate 201 (CHR ''x''))"]
    by simp
qed

section \<open>Dictionaries and lines\<close>

lemma dict_lookup_set:
  "dict_lookup (dict_set d k v) k' = (if k' = k then Some v else dict_lookup d k')"
  by (induction d) auto

lemma splitlines_from_first:
  "cur \<noteq> [] \<or> s \<noteq> [] \<Longrightarrow>
   \<exists>rest. splitlines_from cur s = (cur @ takeWhile (\<lambda>c. \<not> linebreak c) s) # rest"
proof (induction cur s rule: splitlines_from.induct)
  case (1 cur)
  then show ?case by simp
next
  case (2 cur c)
  then show ?case by simp
next
  case (3 cur c d cs)
  then show ?case by (auto simp: linebreak_def)
qed

lemma splitlines_first:
  "s \<noteq> [] \<Longrightarrow> \<exists>rest. splitlines s = takeWhile (\<lambda>c. \<not> linebreak c) s # rest"
  using splitlines_from_first [of "[]" s] by (simp add: splitlines_def)

section \<open>Paths and the file system\<close>

lemma lookup_store:
  "lookup (store w k n) k' = (if k' = [] then Some Dir else if k' = k then Some n else lookup w k')"
  by (simp add: lookup_def store_def)

lemma cwd_store [simp]: "cwd (store w k n) = cwd w"
  by (simp add: store_def)

lemma lookup_root [simp]: "lookup w [] = Some Dir"
  by (simp add: lookup_def)

lemma walk_mono:
  assumes "walk u cur ps = Inr k"
    and "\<And>j. lookup u j = Some Dir \<Longrightarrow> lookup v j = Some Dir"
  shows "walk v cur ps = Inr k"
  using assms(1)
proof (induction ps arbitrary: cur)
  case Nil
  then show ?case by simp
next
  case (Cons c cs)
  from Cons.prems have d: "lookup u cur = Some Dir"
    by (auto split: option.splits node.splits)
  with assms(2) have "lookup v cur = Some Dir" by blast
  with d Cons show ?case by simp
qed

lemma locate_mono:
  assumes "locate u p = Inr k"
    and "\<And>j. lookup u j = Some Dir \<Longrightarrow> lookup v j = Some Dir"
    and "cwd v = cwd u"
  shows "locate v p = Inr k"
proof -
  from assms(1) have "walk u (if anchor p = Relative then cwd u else []) (parts p) = Inr k"
    by (simp add: locate_def)
  then have "walk v (if anchor p = Relative then cwd u else []) (parts p) = Inr k"
    using assms(2) by (rule walk_mono)
  with assms(3) show ?thesis by (cases "anchor p = Relative") (simp_all add: locate_def)
qed

lemma dump_Return:
  assumes "dump L w p doc = Return x w'"
  obtains k where "locate w p = Inr k" "lookup w k \<noteq> Some Dir"
    "json_dumps L doc \<noteq> None" "w' = store w k (File (Some doc))"
  using assms by (auto simp: dump_def split: sum.splits option.splits node.splits)

lemma load_after_dump:
  assumes "dump L w p doc = Return x w'"
  shows "load w' p = Inr doc"
proof -
  from assms obtain k where k: "locate w p = Inr k" "lookup w k \<noteq> Some Dir"
    "w' = store w k (File (Some doc))" by (rule dump_Return)
  from k(2) have ne: "k \<noteq> []" by auto
  have "locate w' p = Inr k"
  proof (rule locate_mono [OF k(1)])
    fix j assume "lookup w j = Some Dir"
    with k(2) k(3) show "lookup w' j = Some Dir" by (auto simp: lookup_store)
  next
    show "cwd w' = cwd w" using k(3) by simp
  qed
  with k(3) ne show ?thesis by (simp add: load_def lookup_store)
qed

lemma name_with_name: "with_name p n = Inr q \<Longrightarrow> name q = n"
  by (auto simp: with_name_def name_def split: if_splits)

lemma endswith_append [simp]: "endswith (a @ b) b"
  by (simp add: endswith_def)

lemma json_name_endswith: "json_name p = Inr q \<Longrightarrow> endswith (name q) ''.json''"
  by (auto simp: json_name_def split: if_splits dest: name_with_name)

lemma json_name_idem: "json_name p = Inr q \<Longrightarrow> json_name q = Inr q"
  using json_name_endswith [of p q] by (simp add: json_name_def)

lemma write_record_json: "json_name p = Inr q \<Longrightarrow> write_record L w q doc = dump L w q doc"
  by (simp add: write_record_def json_name_idem)

section \<open>Validation at decoration time\<close>

text \<open>
  Claim C7. \<^verbatim>\<open>tracked\<close> is what runs when the decorator is created: it returns the
  decorator only for a valid configuration, and raises otherwise, so that no wrapper and
  no call exists for an invalid one. It raises \<^verbatim>\<open>TypeError\<close> unless exactly one of
  \<^verbatim>\<open>literal_directory\<close> and \<^verbatim>\<open>directory_parameter\<close> is given, \<^verbatim>\<open>ValueError\<close> when both
  \<^verbatim>\<open>include_timestamp\<close> and \<^verbatim>\<open>include_uuid\<close> are set, and \<^verbatim>\<open>TypeError\<close> when a suffix is
  requested and none of the directory parameter, the subdirectory name parameter and
  the injection parameter is configured.
\<close>

theorem tracked_validation:
  "(isl (tracked cfg) \<longleftrightarrow> \<not> valid_configuration cfg) \<and>
   (tracked cfg = Inr (decorator cfg) \<or> tracked cfg = Inl TypeError \<or>
    tracked cfg = Inl ValueError) \<and>
   ((literal_directory cfg = None) = (directory_parameter cfg = None) \<longrightarrow>
      tracked cfg = Inl TypeError) \<and>
   ((literal_directory cfg = None) \<noteq> (directory_parameter cfg = None) \<and>
    include_timestamp cfg \<and> include_uuid cfg \<longrightarrow> tracked cfg = Inl ValueError) \<and>
   ((literal_directory cfg = None) \<noteq> (directory_parameter cfg = None) \<and>
    include_timestamp cfg \<noteq> include_uuid cfg \<and>
    directory_injection_parameter cfg = None \<and> directory_parameter cfg = None \<and>
    subdirectory_name_parameter cfg = None \<longrightarrow> tracked cfg = Inl TypeError)"
  by (auto simp: tracked_def valid_configuration_def)

theorem tracked_validation_witness:
  "tracked (defaults\<lparr>literal_directory := Some (PStr ''/data''),
                     directory_parameter := Some ''out''\<rparr>) = Inl TypeError \<and>
   tracked defaults = Inl TypeError \<and>
   tracked (defaults\<lparr>directory_parameter := Some ''out'', include_timestamp := True,
                     include_uuid := True\<rparr>) = Inl ValueError \<and>
   tracked (defaults\<lparr>literal_directory := Some (PStr ''/data''),
                     include_uuid := True\<rparr>) = Inl TypeError \<and>
   tracked (defaults\<lparr>literal_directory := Some (PStr ''/data''),
                     include_timestamp := True\<rparr>) = Inl TypeError \<and>
   \<not> isl (tracked (defaults\<lparr>literal_directory := Some (PStr ''/data''),
                            include_uuid := True,
                            directory_injection_parameter := Some ''where''\<rparr>))"
proof -
  have both: "tracked (defaults\<lparr>literal_directory := Some (PStr ''/data''),
                     directory_parameter := Some ''out''\<rparr>) = Inl TypeError"
    using tracked_validation [of "defaults\<lparr>literal_directory := Some (PStr ''/data''),
                     directory_parameter := Some ''out''\<rparr>"]
    by (simp add: defaults_def)
  have neither: "tracked defaults = Inl TypeError"
    using tracked_validation [of defaults] by (simp add: defaults_def)
  have two: "tracked (defaults\<lparr>directory_parameter := Some ''out'',
                     include_timestamp := True, include_uuid := True\<rparr>) = Inl ValueError"
    using tracked_validation [of "defaults\<lparr>directory_parameter := Some ''out'',
                     include_timestamp := True, include_uuid := True\<rparr>"]
    by (simp add: defaults_def)
  have hidden_uuid: "tracked (defaults\<lparr>literal_directory := Some (PStr ''/data''),
                     include_uuid := True\<rparr>) = Inl TypeError"
    using tracked_validation [of "defaults\<lparr>literal_directory := Some (PStr ''/data''),
                     include_uuid := True\<rparr>"]
    by (simp add: defaults_def)
  have hidden_time: "tracked (defaults\<lparr>literal_directory := Some (PStr ''/data''),
                     include_timestamp := True\<rparr>) = Inl TypeError"
    using tracked_validation [of "defaults\<lparr>literal_directory := Some (PStr ''/data''),
                     include_timestamp := True\<rparr>"]
    by (simp add: defaults_def)
  have good: "\<not> isl (tracked (defaults\<lparr>literal_directory := Some (PStr ''/data''),
                            include_uuid := True,
                            directory_injection_parameter := Some ''where''\<rparr>))"
    using tracked_validation [of "defaults\<lparr>literal_directory := Some (PStr ''/data''),
                     include_uuid := True, directory_injection_parameter := Some ''where''\<rparr>"]
    by (simp add: defaults_def valid_configuration_def)
  from both neither two hidden_uuid hidden_time good show ?thesis by blast
qed

section \<open>The environment snapshot\<close>

text \<open>
  Claim C10. When the build-hash marker file exists and is empty, \<^verbatim>\<open>get_environment_info\<close>
  raises \<^verbatim>\<open>IndexError\<close>. When the file is absent the snapshot is returned without the
  key \<^verbatim>\<open>git_hash_at_docker_build\<close>; when the file has text, the snapshot is returned with
  the first line of the text under that key; and a snapshot is returned only in these
  two cases.
\<close>

theorem build_hash_marker:
  "(build_hash_file h = Some (TextFile []) \<longrightarrow> get_environment_info h = Inl IndexError) \<and>
   (build_hash_file h = None \<longrightarrow>
      (\<exists>info. get_environment_info h = Inr info \<and>
         dict_lookup info ''git_hash_at_docker_build'' = None)) \<and>
   (build_hash_file h = Some (TextFile s) \<and> s \<noteq> [] \<longrightarrow>
      (\<exists>info. get_environment_info h = Inr info \<and>
         dict_lookup info ''git_hash_at_docker_build'' =
           Some (PStr (takeWhile (\<lambda>c. \<not> linebreak c) s)))) \<and>
   ((\<exists>info. get_environment_info h = Inr info) \<longrightarrow>
      build_hash_file h = None \<or>
      (\<exists>s. build_hash_file h = Some (TextFile s) \<and> s \<noteq> []))"
proof (intro conjI impI)
  assume "build_hash_file h = Some (TextFile [])"
  then show "get_environment_info h = Inl IndexError"
    by (simp add: get_environment_info_def splitlines_def Let_def)
next
  assume "build_hash_file h = None"
  then show "\<exists>info. get_environment_info h = Inr info \<and>
         dict_lookup info ''git_hash_at_docker_build'' = None"
    by (simp add: get_environment_info_def Let_def dict_lookup_set split: option.split)
next
  assume a: "build_hash_file h = Some (TextFile s) \<and> s \<noteq> []"
  then obtain rest where "splitlines s = takeWhile (\<lambda>c. \<not> linebreak c) s # rest"
    using splitlines_first by blast
  with a show "\<exists>info. get_environment_info h = Inr info \<and>
         dict_lookup info ''git_hash_at_docker_build'' =
           Some (PStr (takeWhile (\<lambda>c. \<not> linebreak c) s))"
    by (simp add: get_environment_info_def Let_def dict_lookup_set)
next
  assume "\<exists>info. get_environment_info h = Inr info"
  then obtain info where i: "get_environment_info h = Inr info" ..
  show "build_hash_file h = None \<or>
      (\<exists>s. build_hash_file h = Some (TextFile s) \<and> s \<noteq> [])"
  proof (cases "build_hash_file h")
    case None
    then show ?thesis by simp
  next
    case (Some n)
    show ?thesis
    proof (cases n)
      case TextDir
      with Some i show ?thesis by (simp add: get_environment_info_def Let_def)
    next
      case (TextFile s)
      with Some i have "s \<noteq> []"
        by (auto simp: get_environment_info_def Let_def splitlines_def)
      with Some TextFile show ?thesis by simp
    qed
  qed
qed

theorem build_hash_marker_witness:
  "get_environment_info (workstation\<lparr>build_hash_file := Some (TextFile [])\<rparr>) = Inl IndexError \<and>
   (\<exists>info. get_environment_info workstation = Inr info \<and>
      dict_lookup info ''git_hash_at_docker_build'' = None) \<and>
   (\<exists>info. get_environment_info
             (workstation\<lparr>build_hash_file := Some (TextFile (''4f2a9c'' @ [CHR 0x0A] @ ''built''))\<rparr>)
           = Inr info \<and>
      dict_lookup info ''git_hash_at_docker_build'' = Some (PStr ''4f2a9c''))"
proof -
  have empty: "get_environment_info (workstation\<lparr>build_hash_file := Some (TextFile [])\<rparr>)
               = Inl IndexError"
    using build_hash_marker [of "workstation\<lparr>build_hash_file := Some (TextFile [])\<rparr>"]
    by simp
  have absent: "\<exists>info. get_environment_info workstation = Inr info \<and>
      dict_lookup info ''git_hash_at_docker_build'' = None"
    using build_hash_marker [of workstation] by (simp add: workstation_def)
  have line: "takeWhile (\<lambda>c. \<not> linebreak c) (''4f2a9c'' @ [CHR 0x0A] @ ''built'') = ''4f2a9c''"
    by (simp add: linebreak_def)
  have present: "\<exists>info. get_environment_info
             (workstation\<lparr>build_hash_file := Some (TextFile (''4f2a9c'' @ [CHR 0x0A] @ ''built''))\<rparr>)
           = Inr info \<and>
      dict_lookup info ''git_hash_at_docker_build'' = Some (PStr ''4f2a9c'')"
    using build_hash_marker
      [of "workstation\<lparr>build_hash_file := Some (TextFile (''4f2a9c'' @ [CHR 0x0A] @ ''built''))\<rparr>"
          "''4f2a9c'' @ [CHR 0x0A] @ ''built''"]
      line
    by simp
  from empty absent present show ?thesis by blast
qed

section \<open>The wrapper, part by part\<close>

lemma decorated_closure:
  assumes "tracked cfg = Inr d" and "d s f = Inr cl"
  shows "options cl = cfg" and "func cl = f" and "valid_configuration cfg"
proof -
  from assms(1) have d: "d = decorator cfg" and v: "valid_configuration cfg"
    by (auto simp: tracked_def valid_configuration_def split: if_splits)
  from assms(2) d have "decorator cfg s f = Inr cl" by simp
  then show "options cl = cfg" and "func cl = f"
    by (auto simp: decorator_def split: if_splits sum.splits)
  from v show "valid_configuration cfg" .
qed

lemma prepare_Return:
  assumes "prepare L cl c w = Return pr w1"
  obtains bound w0 seed0 where
    "bind_arguments cl c = Inr bound"
    "resolve_directory cl c bound w = Return (pr_record_dir pr) w0"
    "seed_argument cl bound = Inr seed0"
    "seed_tasks L (randint c) seed0 w0 = Return (pr_seed pr) w1"
    "pr_bound pr = bound"
    "pr_record pr = dict_set (first_record L cl c bound) ''seed'' (pr_seed pr)"
    "pr_arguments pr = inject cl bound (pr_seed pr) (pr_record_dir pr)"
  using assms
  by (auto simp: prepare_def split: sum.splits outcome.splits prod.splits)

lemma wrapper_prepared:
  "prepare L cl c w = Return pr w1 \<Longrightarrow>
   wrapper L cl c w =
     (case pre_write L cl pr w1 of
        Raise e w2 \<Rightarrow> Raise e w2
      | Return wr w2 \<Rightarrow>
          post_write L c pr wr (fn_leaves (func cl) (pr_arguments pr) w2)
            (fn_body (func cl) (pr_arguments pr) w2))"
  by (simp add: wrapper_def)

lemma append_suffix_name:
  assumes "append_suffix cl c w p = Inr q"
  shows "(include_timestamp (options cl) \<longrightarrow> name q = name p @ ''_'' @ timestamp c) \<and>
         (\<not> include_timestamp (options cl) \<and> include_uuid (options cl) \<longrightarrow>
            name q = name p @ ''_'' @ job_uuid c)"
  using assms by (auto simp: append_suffix_def split: if_splits dest: name_with_name)

lemma resolve_directory_name:
  assumes "resolve_directory cl c bound w = Return q w'"
  shows "(include_timestamp (options cl) \<longrightarrow> endswith (name q) (''_'' @ timestamp c)) \<and>
         (\<not> include_timestamp (options cl) \<and> include_uuid (options cl) \<longrightarrow>
            endswith (name q) (''_'' @ job_uuid c))"
proof -
  from assms obtain p w0 where "append_suffix cl c w0 p = Inr q"
    by (auto simp: resolve_directory_def split: sum.splits outcome.splits)
  from append_suffix_name [OF this] show ?thesis
    by (auto simp: endswith_def)
qed

lemma not_raised: "raised out = None \<Longrightarrow> \<exists>v w. out = Return v w"
  by (cases out) (simp_all add: raised_def)

lemma seed_library_world:
  "files (world_after (seed_library present set_seed library seed w)) = files w \<and>
   cwd (world_after (seed_library present set_seed library seed w)) = cwd w \<and>
   (library \<noteq> ''random'' \<longrightarrow>
      dict_lookup (rng (world_after (seed_library present set_seed library seed w))) ''random''
        = dict_lookup (rng w) ''random'')"
  by (simp add: seed_library_def world_after_def dict_lookup_set split: option.splits)

lemma seed_library_Return:
  assumes "seed_library present set_seed library seed w = Return x w'"
  shows "files w' = files w" and "cwd w' = cwd w"
    and "library \<noteq> ''random'' \<Longrightarrow> dict_lookup (rng w') ''random'' = dict_lookup (rng w) ''random''"
    and "present \<longrightarrow> set_seed seed = None"
  using assms seed_library_world [of present set_seed library seed w]
  by (auto simp: world_after_def seed_library_def split: if_splits option.splits)

lemma seed_library_Raise:
  assumes "seed_library present set_seed library seed w = Raise e w'"
  shows "files w' = files w" and "cwd w' = cwd w" and "present \<and> set_seed seed = Some e"
  using assms seed_library_world [of present set_seed library seed w]
  by (auto simp: world_after_def seed_library_def split: if_splits option.splits)

lemma seed_tasks_world:
  "files (world_after (seed_tasks L r v w)) = files w \<and>
   cwd (world_after (seed_tasks L r v w)) = cwd w"
proof -
  let ?s = "if v = PNone then PInt r else v"
  let ?w0 = "w\<lparr>rng := dict_set (rng w) ''random'' ?s\<rparr>"
  have w0: "files ?w0 = files w \<and> cwd ?w0 = cwd w" by simp
  show ?thesis
  proof (cases "seed_library (have_numpy L) (np_random_seed L) ''numpy'' ?s ?w0")
    case (Raise e u)
    with seed_library_Raise [OF Raise] w0 show ?thesis
      by (simp add: seed_tasks_def Let_def world_after_def)
  next
    case a: (Return x u)
    note ua = seed_library_Return(1,2) [OF a]
    show ?thesis
    proof (cases "seed_library (have_tensorflow L) (tf_set_seed L) ''tensorflow'' ?s u")
      case (Raise e u')
      with seed_library_Raise [OF Raise] a ua w0 show ?thesis
        by (simp add: seed_tasks_def Let_def world_after_def)
    next
      case b: (Return y u')
      note ub = seed_library_Return(1,2) [OF b]
      show ?thesis
      proof (cases "seed_library (have_torch L) (torch_manual_seed L) ''torch'' ?s u'")
        case (Raise e u'')
        with seed_library_Raise [OF Raise] a b ua ub w0 show ?thesis
          by (simp add: seed_tasks_def Let_def world_after_def)
      next
        case c: (Return z u'')
        with seed_library_Return(1,2) [OF c] a b ua ub w0 show ?thesis
          by (simp add: seed_tasks_def Let_def world_after_def)
      qed
    qed
  qed
qed









lemma get_in_set_in:
  "get_in (set_in r k1 k2 v) j1 j2 =
     (if j1 = k1 \<and> j2 = k2 \<and> (\<exists>d. dict_lookup r k1 = Some (PDict d)) then Some v
      else get_in r j1 j2)"
  by (auto simp: get_in_def set_in_def dict_lookup_set split: option.splits pyval.splits)

lemma pre_write_record:
  assumes "pre_write L cl pr w = Return wr w'"
  shows "wr_record wr = set_in (pr_record pr) ''called_function'' ''altered_parameters''
                          (PDict (format_arguments L (pr_arguments pr)))"
  using assms
  by (auto simp: pre_write_def Let_def split: outcome.splits sum.splits prod.splits)

lemma decorated_the:
  "tracked cfg = Inr d \<Longrightarrow> d installation f = Inr cl \<Longrightarrow> the (decorated cfg f) = cl"
  by (simp add: decorated_def)

lemma not_isl: "\<not> isl x \<Longrightarrow> \<exists>y. x = Inr y"
  by (cases x) simp_all



lemma get_in_dict_set:
  "k \<noteq> j1 \<Longrightarrow> get_in (dict_set r k v) j1 j2 = get_in r j1 j2"
  by (simp add: get_in_def dict_lookup_set)

lemma out_record_holds:
  "out_record chaining previous record = PDict record \<or>
   (\<exists>rs. out_record chaining previous record = PList (rs @ [PDict record]))"
proof (cases chaining)
  case False
  then show ?thesis by (simp add: out_record_def)
next
  case True
  show ?thesis
  proof (cases previous)
    case (PList rs)
    with True show ?thesis by (simp add: out_record_def chained_def)
  next
    case PNone
    with True have "out_record chaining previous record = PList ([previous] @ [PDict record])"
      by (simp add: out_record_def chained_def)
    then show ?thesis by blast
  next
    case (PBool x)
    with True have "out_record chaining previous record = PList ([previous] @ [PDict record])"
      by (simp add: out_record_def chained_def)
    then show ?thesis by blast
  next
    case (PInt x)
    with True have "out_record chaining previous record = PList ([previous] @ [PDict record])"
      by (simp add: out_record_def chained_def)
    then show ?thesis by blast
  next
    case (PStr x)
    with True have "out_record chaining previous record = PList ([previous] @ [PDict record])"
      by (simp add: out_record_def chained_def)
    then show ?thesis by blast
  next
    case (PDict x)
    with True have "out_record chaining previous record = PList ([previous] @ [PDict record])"
      by (simp add: out_record_def chained_def)
    then show ?thesis by blast
  next
    case (PPath x)
    with True have "out_record chaining previous record = PList ([previous] @ [PDict record])"
      by (simp add: out_record_def chained_def)
    then show ?thesis by blast
  next
    case (PObj x)
    with True have "out_record chaining previous record = PList ([previous] @ [PDict record])"
      by (simp add: out_record_def chained_def)
    then show ?thesis by blast
  qed
qed

lemma pre_write_Return_ex:
  assumes "pre_write L cl pr w = Return wr w2"
  shows "\<exists>w1.
    make_directory cl (pr_record_dir pr) w = Return () w1 \<and>
    full_record_path cl (pr_record_dir pr) = Inr (wr_path wr) \<and>
    wr_record wr = set_in (pr_record pr) ''called_function'' ''altered_parameters''
                      (PDict (format_arguments L (pr_arguments pr))) \<and>
    wr_chaining wr = (chain_records (options cl) \<and> exists w1 (wr_path wr)) \<and>
    (wr_chaining wr \<longrightarrow> load w1 (wr_path wr) = Inr (wr_previous_record wr)) \<and>
    dump L w1 (wr_path wr)
       (out_record (wr_chaining wr) (wr_previous_record wr) (wr_record wr)) = Return () w2"
proof -
  from assms obtain w1 where m: "make_directory cl (pr_record_dir pr) w = Return () w1"
    by (auto simp: pre_write_def split: outcome.splits)
  from assms m obtain path where p: "full_record_path cl (pr_record_dir pr) = Inr path"
    by (auto simp: pre_write_def Let_def split: sum.splits)
  have j: "write_record L w1 path = dump L w1 path"
    using p by (auto simp: full_record_path_def write_record_json)
  from assms m p have f:
    "wr_path wr = path \<and>
     wr_record wr = set_in (pr_record pr) ''called_function'' ''altered_parameters''
                      (PDict (format_arguments L (pr_arguments pr))) \<and>
     wr_chaining wr = (chain_records (options cl) \<and> exists w1 path) \<and>
     (wr_chaining wr \<longrightarrow> load w1 path = Inr (wr_previous_record wr)) \<and>
     write_record L w1 path
       (out_record (wr_chaining wr) (wr_previous_record wr) (wr_record wr)) = Return () w2"
    by (auto simp: pre_write_def Let_def split: sum.splits if_splits prod.splits outcome.splits)
  from f have e: "wr_path wr = path" by blast
  from f have f1: "wr_record wr = set_in (pr_record pr) ''called_function''
                      ''altered_parameters'' (PDict (format_arguments L (pr_arguments pr)))"
    by blast
  from f have f2: "wr_chaining wr = (chain_records (options cl) \<and> exists w1 path)"
    by blast
  from f have f3: "wr_chaining wr \<longrightarrow> load w1 path = Inr (wr_previous_record wr)"
    by blast
  from f have "write_record L w1 path
       (out_record (wr_chaining wr) (wr_previous_record wr) (wr_record wr)) = Return () w2"
    by blast
  with j have f4: "dump L w1 path
       (out_record (wr_chaining wr) (wr_previous_record wr) (wr_record wr)) = Return () w2"
    by simp
  show ?thesis
    unfolding e
  proof (intro exI [of _ w1] conjI)
    show "make_directory cl (pr_record_dir pr) w = Return () w1" by (rule m)
    show "full_record_path cl (pr_record_dir pr) = Inr path" by (rule p)
    show "wr_record wr = set_in (pr_record pr) ''called_function''
                      ''altered_parameters'' (PDict (format_arguments L (pr_arguments pr)))"
      by (rule f1)
    show "wr_chaining wr = (chain_records (options cl) \<and> exists w1 path)" by (rule f2)
    show "wr_chaining wr \<longrightarrow> load w1 path = Inr (wr_previous_record wr)" by (rule f3)
    show "dump L w1 path
       (out_record (wr_chaining wr) (wr_previous_record wr) (wr_record wr)) = Return () w2"
      by (rule f4)
  qed
qed

lemma pre_write_Return:
  assumes "pre_write L cl pr w = Return wr w2"
  obtains w1 where
    "make_directory cl (pr_record_dir pr) w = Return () w1"
    "full_record_path cl (pr_record_dir pr) = Inr (wr_path wr)"
    "wr_record wr = set_in (pr_record pr) ''called_function'' ''altered_parameters''
                      (PDict (format_arguments L (pr_arguments pr)))"
    "wr_chaining wr = (chain_records (options cl) \<and> exists w1 (wr_path wr))"
    "wr_chaining wr \<longrightarrow> load w1 (wr_path wr) = Inr (wr_previous_record wr)"
    "dump L w1 (wr_path wr)
       (out_record (wr_chaining wr) (wr_previous_record wr) (wr_record wr)) = Return () w2"
  using pre_write_Return_ex [OF assms] by blast

lemma wrapper_Return:
  assumes "wrapper L cl c w = Return result w4"
  obtains pr w1 wr w2 w3 where
    "prepare L cl c w = Return pr w1"
    "pre_write L cl pr w1 = Return wr w2"
    "fn_body (func cl) (pr_arguments pr) w2 = Return result w3"
    "dump L w3 (wr_path wr) (post_document L cl c pr wr w2) = Return () w4"
proof -
  from assms obtain pr w1 where p: "prepare L cl c w = Return pr w1"
    by (auto simp: wrapper_def split: outcome.splits)
  from assms p obtain wr w2 where q: "pre_write L cl pr w1 = Return wr w2"
    by (auto simp: wrapper_def split: outcome.splits)
  from q obtain w1' where "full_record_path cl (pr_record_dir pr) = Inr (wr_path wr)"
    by (rule pre_write_Return)
  then have j: "write_record L w (wr_path wr) = dump L w (wr_path wr)" for w
    by (auto simp: full_record_path_def write_record_json)
  from assms p q obtain w3 where
    "fn_body (func cl) (pr_arguments pr) w2 = Return result w3"
    "write_record L w3 (wr_path wr) (post_document L cl c pr wr w2) = Return () w4"
    by (auto simp: wrapper_def post_write_def post_document_def split: outcome.splits)
  with p q j that show ?thesis by auto
qed

lemma split_sep_plain: "CHR ''/'' \<notin> set s \<Longrightarrow> split_sep cur s = [cur @ s]"
  by (induction s arbitrary: cur) auto

lemma parse_path_plain:
  assumes "valid_name n"
  shows "parse_path n = Path Relative [n]"
proof -
  from assms have s: "CHR ''/'' \<notin> set n" and ne: "n \<noteq> []" and d: "n \<noteq> ''.''"
    by (simp_all add: valid_name_def)
  from s ne have "hd n \<noteq> CHR ''/''" by (cases n) auto
  with s ne d show ?thesis by (simp add: parse_path_def splitroot_def split_sep_plain)
qed

lemma decorated_record_name:
  assumes "tracked cfg = Inr d" and "d s f = Inr cl"
    and "record_filename cfg = Some rf" and "rf \<noteq> []"
  shows "record_name_local cl = rf"
proof -
  from assms(1) have "d = decorator cfg" by (auto simp: tracked_def split: if_splits)
  with assms(2) have "decorator cfg s f = Inr cl" by simp
  with assms(3,4) show ?thesis
    by (auto simp: decorator_def split: if_splits sum.splits)
qed

lemma endswith_set: "endswith s suf \<Longrightarrow> x \<in> set suf \<Longrightarrow> x \<in> set s"
proof -
  assume a: "endswith s suf" and x: "x \<in> set suf"
  from a have "drop (length s - length suf) s = suf" by (simp add: endswith_def)
  with x have "x \<in> set (drop (length s - length suf) s)" by simp
  then show ?thesis by (rule in_set_dropD)
qed

lemma stem_plain: "CHR ''.'' \<notin> set (name p) \<Longrightarrow> stem p = name p"
  by (simp add: stem_def rfind_dot_def)

lemma decorated_call:
  assumes "tracked cfg = Inr (decorator cfg)"
    and "\<not> isl (decorator cfg installation f)"
    and "raised (wrapper L (the (decorated cfg f)) c w) = None"
  obtains cl pr w1 wr w2 where
    "decorator cfg installation f = Inr cl" "cl = the (decorated cfg f)"
    "prepare L cl c w = Return pr w1" "pre_write L cl pr w1 = Return wr w2"
proof -
  from assms(2) obtain cl where d: "decorator cfg installation f = Inr cl"
    using not_isl by blast
  with assms(1) have e: "cl = the (decorated cfg f)" by (simp add: decorated_the)
  from assms(3) e obtain result w4 where "wrapper L cl c w = Return result w4"
    using not_raised by blast
  then obtain pr w1 wr w2 where
    "prepare L cl c w = Return pr w1" "pre_write L cl pr w1 = Return wr w2"
    by (rule wrapper_Return)
  with d e that show ?thesis by blast
qed

section \<open>What the wrapper does to the file system before it writes\<close>

lemma grown_refl [simp]: "grown w w"
  by (simp add: grown_def)

lemma grown_trans:
  assumes "grown u v" and "grown v w"
  shows "grown u w"
proof -
  have "lookup w k = lookup u k \<or> (lookup u k = None \<and> lookup w k = Some Dir)" for k
  proof -
    from assms(1) have a: "lookup v k = lookup u k \<or> (lookup u k = None \<and> lookup v k = Some Dir)"
      by (simp add: grown_def)
    from assms(2) have b: "lookup w k = lookup v k \<or> (lookup v k = None \<and> lookup w k = Some Dir)"
      by (simp add: grown_def)
    from a b show ?thesis by auto
  qed
  moreover from assms have "cwd w = cwd u" by (simp add: grown_def)
  ultimately show ?thesis by (simp add: grown_def)
qed

lemma grown_store_dir: "lookup w k = None \<Longrightarrow> grown w (store w k Dir)"
  by (auto simp: grown_def lookup_store)

lemma grown_rng [simp]: "grown w (w\<lparr>rng := r\<rparr>)"
  by (simp add: grown_def lookup_def)

lemma os_mkdir_grown: "os_mkdir w p = Inr w' \<Longrightarrow> grown w w'"
  by (auto simp: os_mkdir_def grown_store_dir split: sum.splits option.splits)

lemma mkdir_single_grown: "mkdir_single w p = Inr w' \<Longrightarrow> grown w w'"
  by (auto simp: mkdir_single_def os_mkdir_grown split: sum.splits if_splits)

lemma mkdir_grown: "mkdir w p parents = Inr w' \<Longrightarrow> grown w w'"
proof (induction w p parents arbitrary: w' rule: mkdir.induct)
  case (1 w p parents)
  note unfold = mkdir.simps [of w p parents]
  show ?case
  proof (cases "os_mkdir w p")
    case (Inr u)
    with "1.prems" unfold have "w' = u" by simp
    with Inr show ?thesis by (simp add: os_mkdir_grown)
  next
    case (Inl e)
    show ?thesis
    proof (cases "e = FileNotFoundError")
      case False
      with Inl "1.prems" unfold have "w' = w"
        by (simp split: if_splits)
      then show ?thesis by simp
    next
      case True
      with Inl "1.prems" unfold have c: "\<not> (\<not> parents \<or> parts p = [])"
        by (auto split: if_splits)
      with Inl True "1.prems" unfold obtain u where
        u: "mkdir w (parent p) True = Inr u" and s: "mkdir_single u p = Inr w'"
        by (auto split: sum.splits)
      from "1.IH" [OF Inl True c u] have "grown w u" .
      moreover from s have "grown u w'" by (rule mkdir_single_grown)
      ultimately show ?thesis by (rule grown_trans)
    qed
  qed
qed

lemma grown_same: "files v = files u \<Longrightarrow> cwd v = cwd u \<Longrightarrow> grown u v"
  by (simp add: grown_def lookup_def)

lemma seed_tasks_grown: "grown w (world_after (seed_tasks L r v w))"
  using seed_tasks_world [of L r v w] by (simp add: grown_same)

lemma with_subdirectory_grown:
  "grown w (world_after (with_subdirectory cl bound p w))"
proof (cases "subdirectory_name_parameter (options cl)")
  case None
  then show ?thesis by (simp add: with_subdirectory_def world_after_def)
next
  case (Some sp)
  show ?thesis
  proof (cases "mkdir w p (create_parents (options cl))")
    case (Inl e)
    with Some show ?thesis by (simp add: with_subdirectory_def world_after_def)
  next
    case (Inr w')
    then have "grown w w'" by (rule mkdir_grown)
    moreover from Some Inr
    have "world_after (with_subdirectory cl bound p w) = w'"
      by (simp add: with_subdirectory_def world_after_def split: sum.splits)
    ultimately show ?thesis by simp
  qed
qed

lemma resolve_directory_grown:
  "grown w (world_after (resolve_directory cl c bound w))"
proof (cases "base_directory cl bound")
  case (Inl e)
  then show ?thesis by (simp add: resolve_directory_def world_after_def)
next
  case (Inr p)
  have g: "grown w (world_after (with_subdirectory cl bound p w))"
    by (rule with_subdirectory_grown)
  show ?thesis
  proof (cases "with_subdirectory cl bound p w")
    case (Raise e w1)
    with Inr g show ?thesis by (simp add: resolve_directory_def world_after_def)
  next
    case (Return q w1)
    with Inr g show ?thesis
      by (cases "append_suffix cl c w1 q") (simp_all add: resolve_directory_def world_after_def)
  qed
qed

lemma prepare_grown: "grown w (world_after (prepare L cl c w))"
proof (cases "bind_arguments cl c")
  case (Inl e)
  then show ?thesis by (simp add: prepare_def world_after_def)
next
  case (Inr bound)
  have g: "grown w (world_after (resolve_directory cl c bound w))"
    by (rule resolve_directory_grown)
  show ?thesis
  proof (cases "resolve_directory cl c bound w")
    case (Raise e w1)
    with Inr g show ?thesis by (simp add: prepare_def world_after_def)
  next
    case (Return dir w1)
    with g have g1: "grown w w1" by (simp add: world_after_def)
    show ?thesis
    proof (cases "seed_argument cl bound")
      case (Inl e)
      with Inr Return g1 show ?thesis by (simp add: prepare_def world_after_def)
    next
      case (Inr seed0)
      have "grown w1 (world_after (seed_tasks L (randint c) seed0 w1))"
        by (rule seed_tasks_grown)
      with g1 have "grown w (world_after (seed_tasks L (randint c) seed0 w1))"
        by (rule grown_trans)
      with \<open>bind_arguments cl c = Inr bound\<close> Return Inr show ?thesis
        by (cases "seed_tasks L (randint c) seed0 w1") (simp_all add: prepare_def world_after_def)
    qed
  qed
qed

lemma prepare_Return_grown: "prepare L cl c w = Return pr w1 \<Longrightarrow> grown w w1"
  using prepare_grown [of w L cl c] by (simp add: world_after_def)

lemma make_directory_grown: "grown w (world_after (make_directory cl p w))"
proof (cases "mkdir w p (create_parents (options cl))")
  case (Inl e)
  then show ?thesis by (simp add: make_directory_def world_after_def)
next
  case (Inr w')
  then have "grown w w'" by (rule mkdir_grown)
  moreover from Inr have "world_after (make_directory cl p w) = w'"
    by (simp add: make_directory_def world_after_def split: sum.splits list.splits)
  ultimately show ?thesis by simp
qed

lemma make_directory_Return_grown: "make_directory cl p w = Return x w1 \<Longrightarrow> grown w w1"
  using make_directory_grown [of w cl p] by (simp add: world_after_def)

lemma iterdir_entry:
  assumes "iterdir w p = Inr (entry # entries)"
  obtains k k' where "locate w p = Inr k" "lookup w k = Some Dir"
    "k' \<noteq> []" "butlast k' = k" "lookup w k' \<noteq> None"
proof -
  from assms obtain k where k: "locate w p = Inr k" "lookup w k = Some Dir"
    and f: "filter (\<lambda>k'. k' \<noteq> [] \<and> butlast k' = k \<and> lookup w k' \<noteq> None)
              (remdups (map fst (files w))) = entry # entries"
    by (auto simp: iterdir_def split: sum.splits option.splits node.splits)
  from f have "entry \<in> set (filter (\<lambda>k'. k' \<noteq> [] \<and> butlast k' = k \<and> lookup w k' \<noteq> None)
              (remdups (map fst (files w))))" by simp
  then have "entry \<noteq> [] \<and> butlast entry = k \<and> lookup w entry \<noteq> None" by simp
  with k that show ?thesis by blast
qed

lemma in_set_nonempty: "x \<in> set xs \<Longrightarrow> xs \<noteq> []"
  by auto

lemma entry_iterdir:
  assumes "locate w p = Inr k" and "lookup w k = Some Dir"
    and "k' \<noteq> []" and "butlast k' = k" and "lookup w k' \<noteq> None"
  shows "\<exists>entry entries. iterdir w p = Inr (entry # entries)"
proof -
  let ?found = "filter (\<lambda>k'. k' \<noteq> [] \<and> butlast k' = k \<and> lookup w k' \<noteq> None)
                  (remdups (map fst (files w)))"
  from assms(3,5) have "map_of (files w) k' \<noteq> None" by (simp add: lookup_def)
  then have "k' \<in> set (map fst (files w))" by (auto simp: map_of_eq_None_iff)
  with assms(3,4,5) have "k' \<in> set ?found" by simp
  then have "?found \<noteq> []" by (rule in_set_nonempty)
  then obtain entry entries where "?found = entry # entries"
    unfolding neq_Nil_conv by blast
  with assms(1,2) show ?thesis by (simp add: iterdir_def)
qed

lemma grown_dir:
  assumes "grown u v" and "lookup u k = Some Dir"
  shows "lookup v k = Some Dir"
proof -
  from assms(1) have "lookup v k = lookup u k \<or> (lookup u k = None \<and> lookup v k = Some Dir)"
    by (simp add: grown_def)
  with assms(2) show ?thesis by auto
qed

lemma grown_some:
  assumes "grown u v" and "lookup u k \<noteq> None"
  shows "lookup v k = lookup u k"
proof -
  from assms(1) have "lookup v k = lookup u k \<or> (lookup u k = None \<and> lookup v k = Some Dir)"
    by (simp add: grown_def)
  with assms(2) show ?thesis by auto
qed

lemma grown_locate:
  assumes "grown u v" and "locate u p = Inr k"
  shows "locate v p = Inr k"
proof (rule locate_mono [OF assms(2)])
  fix j assume "lookup u j = Some Dir"
  with assms(1) show "lookup v j = Some Dir" by (rule grown_dir)
next
  from assms(1) show "cwd v = cwd u" by (simp add: grown_def)
qed

lemma grown_iterdir:
  assumes "grown u v" and "iterdir u p = Inr (entry # entries)"
  shows "\<exists>entry' entries'. iterdir v p = Inr (entry' # entries')"
proof -
  from assms(2) obtain k k' where k: "locate u p = Inr k" "lookup u k = Some Dir"
    "k' \<noteq> []" "butlast k' = k" "lookup u k' \<noteq> None"
    by (rule iterdir_entry)
  from assms(1) k(1) have a: "locate v p = Inr k" by (rule grown_locate)
  from assms(1) k(2) have b: "lookup v k = Some Dir" by (rule grown_dir)
  from grown_some [OF assms(1) k(5)] k(5) have c: "lookup v k' \<noteq> None" by simp
  from a b k(3) k(4) c show ?thesis by (rule entry_iterdir)
qed

lemma mkdir_existing:
  assumes "locate w p = Inr k" and "lookup w k = Some Dir"
  shows "mkdir w p parents = Inr w"
proof -
  from assms have "os_mkdir w p = Inl FileExistsError" by (simp add: os_mkdir_def)
  moreover from assms have "is_dir w p" by (simp add: is_dir_def)
  ultimately show ?thesis using mkdir.simps [of w p parents] by simp
qed

lemma dump_located:
  assumes "dump L w p doc = Return x w'"
  obtains k where "locate w p = Inr k" "locate w' p = Inr k" "k \<noteq> []"
    "lookup w k \<noteq> Some Dir" "w' = store w k (File (Some doc))"
    "lookup w' k = Some (File (Some doc))"
proof -
  from assms obtain k where k: "locate w p = Inr k" "lookup w k \<noteq> Some Dir"
    "w' = store w k (File (Some doc))" by (rule dump_Return)
  from k(2) have ne: "k \<noteq> []" by auto
  have "locate w' p = Inr k"
  proof (rule locate_mono [OF k(1)])
    fix j assume "lookup w j = Some Dir"
    with k(2) k(3) show "lookup w' j = Some Dir" by (auto simp: lookup_store)
  next
    show "cwd w' = cwd w" using k(3) by simp
  qed
  moreover from k(3) ne have "lookup w' k = Some (File (Some doc))"
    by (simp add: lookup_store)
  ultimately show ?thesis using k ne that by blast
qed

lemma dump_on_file:
  assumes "locate w p = Inr k" and "lookup w k = Some (File d)" and "json_dumps L doc \<noteq> None"
  shows "dump L w p doc = Return () (store w k (File (Some doc)))"
  using assms by (auto simp: dump_def)

lemma keeps_tree_locate:
  assumes "keeps_tree u v" and "locate u p = Inr k"
  shows "locate v p = Inr k"
proof (rule locate_mono [OF assms(2)])
  fix j assume "lookup u j = Some Dir"
  with assms(1) show "lookup v j = Some Dir" by (simp add: keeps_tree_def)
next
  from assms(1) show "cwd v = cwd u" by (simp add: keeps_tree_def)
qed

lemma keeps_tree_dump:
  assumes "dump L w p doc = Return x u" and "keeps_tree u v" and "json_dumps L doc' \<noteq> None"
  obtains k where "locate w p = Inr k" "locate u p = Inr k" "locate v p = Inr k"
    "dump L v p doc' = Return () (store v k (File (Some doc')))" "k \<noteq> []"
    "lookup w k \<noteq> Some Dir" "u = store w k (File (Some doc))"
proof -
  from assms(1) obtain k where k: "locate w p = Inr k" "locate u p = Inr k" "k \<noteq> []"
    "lookup w k \<noteq> Some Dir" "u = store w k (File (Some doc))"
    "lookup u k = Some (File (Some doc))"
    by (rule dump_located)
  from assms(2) k(2) have l: "locate v p = Inr k" by (rule keeps_tree_locate)
  from assms(2) k(6) obtain d' where "lookup v k = Some (File d')"
    by (auto simp: keeps_tree_def)
  with l have "dump L v p doc' = Return () (store v k (File (Some doc')))"
    using assms(3) by (rule dump_on_file)
  with k l that show ?thesis by blast
qed

lemma walk_same:
  assumes "\<And>j. lookup u j = lookup v j"
  shows "walk u cur ps = walk v cur ps"
  by (induction ps arbitrary: cur) (simp_all add: assms split: option.split node.split)

lemma load_same:
  assumes "files u = files v" and "cwd u = cwd v"
  shows "load u p = load v p"
proof -
  from assms(1) have l: "lookup u j = lookup v j" for j by (simp add: lookup_def)
  then have "walk u cur ps = walk v cur ps" for cur ps by (rule walk_same)
  with assms(2) have "locate u p = locate v p" by (simp add: locate_def)
  with l show ?thesis by (simp add: load_def split: sum.split option.split node.split)
qed

lemma first_record_timing:
  "get_in (first_record L cl c bound) ''timing'' k
     = (if k = ''start_time'' then Some (PStr (start_time c)) else None)"
  by (simp add: first_record_def Let_def get_in_def dict_lookup_set)

lemma pre_write_timing:
  assumes "prepare L cl c w = Return pr w1" and "pre_write L cl pr w1 = Return wr w2"
  shows "get_in (wr_record wr) ''timing'' k
     = (if k = ''start_time'' then Some (PStr (start_time c)) else None)"
proof -
  from assms(1) obtain bound where
    "pr_record pr = dict_set (first_record L cl c bound) ''seed'' (pr_seed pr)"
    by (rule prepare_Return)
  moreover from assms(2) have
    "wr_record wr = set_in (pr_record pr) ''called_function'' ''altered_parameters''
                      (PDict (format_arguments L (pr_arguments pr)))"
    by (rule pre_write_record)
  ultimately show ?thesis
    by (simp add: get_in_set_in get_in_dict_set first_record_timing)
qed

lemma keeps_tree_refl [simp]: "keeps_tree w w"
  by (simp add: keeps_tree_def)

lemma before_call_Return:
  assumes "before_call L cl c w = Return (pr, wr) w2"
  obtains w1 where "prepare L cl c w = Return pr w1" "pre_write L cl pr w1 = Return wr w2"
  using assms by (auto simp: before_call_def split: outcome.splits)

lemma decorated_before_call:
  assumes "tracked cfg = Inr (decorator cfg)"
    and "\<not> isl (decorator cfg installation f)"
    and "raised (before_call L (the (decorated cfg f)) c w) = None"
  obtains cl pr w1 wr w2 where
    "decorator cfg installation f = Inr cl" "cl = the (decorated cfg f)"
    "func cl = f" "options cl = cfg"
    "before_call L cl c w = Return (pr, wr) w2"
    "prepare L cl c w = Return pr w1" "pre_write L cl pr w1 = Return wr w2"
proof -
  from assms(2) obtain cl where d: "decorator cfg installation f = Inr cl"
    using not_isl by blast
  with assms(1) have e: "cl = the (decorated cfg f)" by (simp add: decorated_the)
  from assms(1) d have fo: "func cl = f" "options cl = cfg"
    by (rule decorated_closure)+
  from assms(3) e obtain x w2 where "before_call L cl c w = Return x w2"
    using not_raised by blast
  then obtain pr wr where b: "before_call L cl c w = Return (pr, wr) w2"
    by (cases x) simp
  then obtain w1 where "prepare L cl c w = Return pr w1" "pre_write L cl pr w1 = Return wr w2"
    by (rule before_call_Return)
  with d e fo b that show ?thesis by blast
qed


section \<open>The record after the call\<close>









section \<open>Feeding the output directory back into the call\<close>

text \<open>
  Claim C1, as the code has it. When the first part of the wrapper has run: with an
  injection parameter configured, that parameter holds the final output directory as a
  path, and nothing else is fed back: the parameters that supplied the subdirectory
  name and the base directory keep the values they were bound to, suffix or not.
  Without an injection parameter, and with a timestamp or identifier suffix: the
  parameter that supplied the subdirectory name holds the leaf name of the final
  directory, a string; and when no subdirectory parameter is configured, the parameter
  that supplied the base directory holds the final directory itself, the whole path and
  not its leaf name. Without an injection parameter and without a suffix nothing is fed
  back. In each case every parameter other than the one written, and other than the
  seed parameter, is as it was bound. The leaf name ends in the suffix, and the function
  is called with these arguments.
\<close>

theorem directory_feedback:
  assumes "prepare L cl c w = Return pr w1"
  shows "(directory_injection_parameter (options cl) = Some dip \<longrightarrow>
            dict_lookup (pr_arguments pr) dip = Some (PPath (pr_record_dir pr)) \<and>
            (\<forall>k. k \<noteq> dip \<and> seed_parameter (options cl) \<noteq> Some k \<longrightarrow>
               dict_lookup (pr_arguments pr) k = dict_lookup (pr_bound pr) k)) \<and>
         (directory_injection_parameter (options cl) = None \<and>
          (include_uuid (options cl) \<or> include_timestamp (options cl)) \<and>
          subdirectory_name_parameter (options cl) = Some sub \<longrightarrow>
            dict_lookup (pr_arguments pr) sub = Some (PStr (name (pr_record_dir pr))) \<and>
            (\<forall>k. k \<noteq> sub \<and> seed_parameter (options cl) \<noteq> Some k \<longrightarrow>
               dict_lookup (pr_arguments pr) k = dict_lookup (pr_bound pr) k)) \<and>
         (directory_injection_parameter (options cl) = None \<and>
          (include_uuid (options cl) \<or> include_timestamp (options cl)) \<and>
          subdirectory_name_parameter (options cl) = None \<and>
          directory_parameter (options cl) = Some dp \<longrightarrow>
            dict_lookup (pr_arguments pr) dp = Some (PPath (pr_record_dir pr)) \<and>
            (\<forall>k. k \<noteq> dp \<and> seed_parameter (options cl) \<noteq> Some k \<longrightarrow>
               dict_lookup (pr_arguments pr) k = dict_lookup (pr_bound pr) k)) \<and>
         (directory_injection_parameter (options cl) = None \<and>
          \<not> include_uuid (options cl) \<and> \<not> include_timestamp (options cl) \<longrightarrow>
            (\<forall>k. seed_parameter (options cl) \<noteq> Some k \<longrightarrow>
               dict_lookup (pr_arguments pr) k = dict_lookup (pr_bound pr) k)) \<and>
         (include_timestamp (options cl) \<longrightarrow>
            endswith (name (pr_record_dir pr)) (''_'' @ timestamp c)) \<and>
         (\<not> include_timestamp (options cl) \<and> include_uuid (options cl) \<longrightarrow>
            endswith (name (pr_record_dir pr)) (''_'' @ job_uuid c)) \<and>
         wrapper L cl c w =
           (case pre_write L cl pr w1 of
              Raise e w2 \<Rightarrow> Raise e w2
            | Return wr w2 \<Rightarrow>
                post_write L c pr wr (fn_leaves (func cl) (pr_arguments pr) w2)
                  (fn_body (func cl) (pr_arguments pr) w2))"
proof -
  from assms obtain bound w0 where
    d: "resolve_directory cl c bound w = Return (pr_record_dir pr) w0" and
    b: "pr_bound pr = bound" and
    a: "pr_arguments pr = inject cl bound (pr_seed pr) (pr_record_dir pr)"
    by (rule prepare_Return)
  from a b have a': "pr_arguments pr = inject cl (pr_bound pr) (pr_seed pr) (pr_record_dir pr)"
    by simp
  have i1: "directory_injection_parameter (options cl) = Some dip \<longrightarrow>
            dict_lookup (pr_arguments pr) dip = Some (PPath (pr_record_dir pr)) \<and>
            (\<forall>k. k \<noteq> dip \<and> seed_parameter (options cl) \<noteq> Some k \<longrightarrow>
               dict_lookup (pr_arguments pr) k = dict_lookup (pr_bound pr) k)"
    unfolding a'
    by (cases "seed_parameter (options cl)") (auto simp: inject_def Let_def dict_lookup_set)
  have i2: "directory_injection_parameter (options cl) = None \<and>
          (include_uuid (options cl) \<or> include_timestamp (options cl)) \<and>
          subdirectory_name_parameter (options cl) = Some sub \<longrightarrow>
            dict_lookup (pr_arguments pr) sub = Some (PStr (name (pr_record_dir pr))) \<and>
            (\<forall>k. k \<noteq> sub \<and> seed_parameter (options cl) \<noteq> Some k \<longrightarrow>
               dict_lookup (pr_arguments pr) k = dict_lookup (pr_bound pr) k)"
    unfolding a'
    by (cases "seed_parameter (options cl)") (auto simp: inject_def Let_def dict_lookup_set)
  have i3: "directory_injection_parameter (options cl) = None \<and>
          (include_uuid (options cl) \<or> include_timestamp (options cl)) \<and>
          subdirectory_name_parameter (options cl) = None \<and>
          directory_parameter (options cl) = Some dp \<longrightarrow>
            dict_lookup (pr_arguments pr) dp = Some (PPath (pr_record_dir pr)) \<and>
            (\<forall>k. k \<noteq> dp \<and> seed_parameter (options cl) \<noteq> Some k \<longrightarrow>
               dict_lookup (pr_arguments pr) k = dict_lookup (pr_bound pr) k)"
    unfolding a'
    by (cases "seed_parameter (options cl)") (auto simp: inject_def Let_def dict_lookup_set)
  have i4: "directory_injection_parameter (options cl) = None \<and>
          \<not> include_uuid (options cl) \<and> \<not> include_timestamp (options cl) \<longrightarrow>
            (\<forall>k. seed_parameter (options cl) \<noteq> Some k \<longrightarrow>
               dict_lookup (pr_arguments pr) k = dict_lookup (pr_bound pr) k)"
    unfolding a'
    by (cases "seed_parameter (options cl)") (auto simp: inject_def Let_def dict_lookup_set)
  from resolve_directory_name [OF d] have
    n1: "include_timestamp (options cl) \<longrightarrow>
           endswith (name (pr_record_dir pr)) (''_'' @ timestamp c)" and
    n2: "\<not> include_timestamp (options cl) \<and> include_uuid (options cl) \<longrightarrow>
           endswith (name (pr_record_dir pr)) (''_'' @ job_uuid c)"
    by blast+
  from i1 i2 i3 i4 n1 n2 wrapper_prepared [OF assms] show ?thesis
    by (intro conjI)
qed

text \<open>
  With \<^verbatim>\<open>directory_parameter='out'\<close> and \<^verbatim>\<open>include_uuid=True\<close>, the call
  \<^verbatim>\<open>some_fun(4, out='/data/run')\<close> lets the function observe the path
  \<^verbatim>\<open>/data/run_2dddbaa6\<close> in \<^verbatim>\<open>out\<close>, which is not the leaf name \<^verbatim>\<open>run_2dddbaa6\<close>.
\<close>

theorem directory_feedback_counterexample:
  "returned (wrapper plain
      (the (decorated (defaults\<lparr>directory_parameter := Some ''out'', include_uuid := True\<rparr>)
              some_fun))
      (call4\<lparr>kwargs := [(''out'', PStr ''/data/run'')]\<rparr>) disk)
     = Some (PDict [(''x'', PInt 4),
                    (''out'', PPath (Path Slash [''data'', ''run_2dddbaa6''])),
                    (''name'', PStr ''run''), (''seed'', PNone), (''where'', PNone)]) \<and>
   PPath (Path Slash [''data'', ''run_2dddbaa6''])
     \<noteq> PStr (name (Path Slash [''data'', ''run_2dddbaa6'']))"
  by code_simp

theorem directory_feedback_witness:
  "(\<exists>pr w1. prepare plain
       (the (decorated (defaults\<lparr>directory_parameter := Some ''out'', include_uuid := True\<rparr>)
               some_fun))
       (call4\<lparr>kwargs := [(''out'', PStr ''/data/run'')]\<rparr>) disk = Return pr w1 \<and>
     pr_record_dir pr = Path Slash [''data'', ''run_2dddbaa6''] \<and>
     dict_lookup (pr_arguments pr) ''out'' = Some (PPath (pr_record_dir pr))) \<and>
   (\<exists>pr w1. prepare plain
       (the (decorated (defaults\<lparr>literal_directory := Some (PStr ''/data''),
                                 subdirectory_name_parameter := Some ''name'',
                                 include_timestamp := True\<rparr>) some_fun))
       call4 disk = Return pr w1 \<and>
     pr_record_dir pr = Path Slash [''data'', ''run_2024_05_01_10_00_00''] \<and>
     dict_lookup (pr_arguments pr) ''name'' = Some (PStr (name (pr_record_dir pr)))) \<and>
   (\<exists>pr w1. prepare plain
       (the (decorated (defaults\<lparr>literal_directory := Some (PStr ''/data/out''),
                                 subdirectory_name_parameter := Some ''name'',
                                 include_uuid := True,
                                 directory_injection_parameter := Some ''where''\<rparr>) some_fun))
       call4 disk = Return pr w1 \<and>
     pr_record_dir pr = Path Slash [''data'', ''out'', ''run_2dddbaa6''] \<and>
     dict_lookup (pr_arguments pr) ''where'' = Some (PPath (pr_record_dir pr)) \<and>
     dict_lookup (pr_arguments pr) ''name'' = Some (PStr ''run''))"
proof -
  let ?clA = "the (decorated (defaults\<lparr>directory_parameter := Some ''out'',
                                         include_uuid := True\<rparr>) some_fun)"
  let ?cA = "call4\<lparr>kwargs := [(''out'', PStr ''/data/run'')]\<rparr>"
  let ?clB = "the (decorated (defaults\<lparr>literal_directory := Some (PStr ''/data''),
                                 subdirectory_name_parameter := Some ''name'',
                                 include_timestamp := True\<rparr>) some_fun)"
  let ?clC = "the (decorated (defaults\<lparr>literal_directory := Some (PStr ''/data/out''),
                                 subdirectory_name_parameter := Some ''name'',
                                 include_uuid := True,
                                 directory_injection_parameter := Some ''where''\<rparr>) some_fun)"
  have "raised (prepare plain ?clA ?cA disk) = None" by code_simp
  then obtain prA wA where A: "prepare plain ?clA ?cA disk = Return prA wA"
    using not_raised by blast
  have optA: "directory_injection_parameter (options ?clA) = None \<and>
              (include_uuid (options ?clA) \<or> include_timestamp (options ?clA)) \<and>
              subdirectory_name_parameter (options ?clA) = None \<and>
              directory_parameter (options ?clA) = Some ''out''"
    by code_simp
  have "map_option pr_record_dir (returned (prepare plain ?clA ?cA disk))
          = Some (Path Slash [''data'', ''run_2dddbaa6''])" by code_simp
  with A have dirA: "pr_record_dir prA = Path Slash [''data'', ''run_2dddbaa6'']"
    by (simp add: returned_def)
  from directory_feedback [OF A, of _ _ "''out''"] optA
  have "dict_lookup (pr_arguments prA) ''out'' = Some (PPath (pr_record_dir prA))"
    by blast
  with A dirA have partA: "\<exists>pr w1. prepare plain ?clA ?cA disk = Return pr w1 \<and>
     pr_record_dir pr = Path Slash [''data'', ''run_2dddbaa6''] \<and>
     dict_lookup (pr_arguments pr) ''out'' = Some (PPath (pr_record_dir pr))"
    by blast
  have "raised (prepare plain ?clB call4 disk) = None" by code_simp
  then obtain prB wB where B: "prepare plain ?clB call4 disk = Return prB wB"
    using not_raised by blast
  have optB: "directory_injection_parameter (options ?clB) = None \<and>
              (include_uuid (options ?clB) \<or> include_timestamp (options ?clB)) \<and>
              subdirectory_name_parameter (options ?clB) = Some ''name''"
    by code_simp
  have "map_option pr_record_dir (returned (prepare plain ?clB call4 disk))
          = Some (Path Slash [''data'', ''run_2024_05_01_10_00_00''])" by code_simp
  with B have dirB: "pr_record_dir prB = Path Slash [''data'', ''run_2024_05_01_10_00_00'']"
    by (simp add: returned_def)
  from directory_feedback [OF B, of _ "''name''"] optB
  have "dict_lookup (pr_arguments prB) ''name'' = Some (PStr (name (pr_record_dir prB)))"
    by blast
  with B dirB have partB: "\<exists>pr w1. prepare plain ?clB call4 disk = Return pr w1 \<and>
     pr_record_dir pr = Path Slash [''data'', ''run_2024_05_01_10_00_00''] \<and>
     dict_lookup (pr_arguments pr) ''name'' = Some (PStr (name (pr_record_dir pr)))"
    by blast
  have "raised (prepare plain ?clC call4 disk) = None" by code_simp
  then obtain prC wC where C: "prepare plain ?clC call4 disk = Return prC wC"
    using not_raised by blast
  have optC: "directory_injection_parameter (options ?clC) = Some ''where'' \<and>
              seed_parameter (options ?clC) \<noteq> Some ''name''"
    by code_simp
  have "map_option pr_record_dir (returned (prepare plain ?clC call4 disk))
          = Some (Path Slash [''data'', ''out'', ''run_2dddbaa6''])" by code_simp
  with C have dirC: "pr_record_dir prC = Path Slash [''data'', ''out'', ''run_2dddbaa6'']"
    by (simp add: returned_def)
  have "map_option (\<lambda>pr. dict_lookup (pr_bound pr) ''name'')
          (returned (prepare plain ?clC call4 disk)) = Some (Some (PStr ''run''))"
    by code_simp
  with C have boundC: "dict_lookup (pr_bound prC) ''name'' = Some (PStr ''run'')"
    by (simp add: returned_def)
  from directory_feedback [OF C, of "''where''"] optC
  have "dict_lookup (pr_arguments prC) ''where'' = Some (PPath (pr_record_dir prC)) \<and>
        (\<forall>k. k \<noteq> ''where'' \<and> seed_parameter (options ?clC) \<noteq> Some k \<longrightarrow>
               dict_lookup (pr_arguments prC) k = dict_lookup (pr_bound prC) k)"
    by blast
  with optC boundC
  have "dict_lookup (pr_arguments prC) ''where'' = Some (PPath (pr_record_dir prC)) \<and>
        dict_lookup (pr_arguments prC) ''name'' = Some (PStr ''run'')"
    by simp
  with C dirC have partC: "\<exists>pr w1. prepare plain ?clC call4 disk = Return pr w1 \<and>
     pr_record_dir pr = Path Slash [''data'', ''out'', ''run_2dddbaa6''] \<and>
     dict_lookup (pr_arguments pr) ''where'' = Some (PPath (pr_record_dir pr)) \<and>
     dict_lookup (pr_arguments pr) ''name'' = Some (PStr ''run'')"
    by blast
  from partA partB partC show ?thesis by blast
qed


section \<open>The seed\<close>




section \<open>The recorded parameters\<close>




section \<open>The name of the record file\<close>

text \<open>
  Claim C5, as the code has it. For a decorated function with a configured record file
  name, the record file that the wrapper writes has a name ending in \<^verbatim>\<open>.json\<close>, and
  \<^verbatim>\<open>write_record\<close> writes to that path without renaming it again. A name that ends in
  \<^verbatim>\<open>.json\<close> already is used unchanged. Any other name is replaced by its stem followed by
  \<^verbatim>\<open>.json\<close>: the last suffix of the name, when it has one, is dropped, and the extension
  is appended to the configured name only when the name has no dot.
\<close>

theorem record_file_extension:
  assumes "tracked cfg = Inr d" and "d s f = Inr cl"
    and "record_filename cfg = Some rf" and "rf \<noteq> []"
    and "pre_write L cl pr w = Return wr w2"
  shows "endswith (name (wr_path wr)) ''.json'' \<and>
         write_record L w2 (wr_path wr) = dump L w2 (wr_path wr) \<and>
         load w2 (wr_path wr)
           = Inr (out_record (wr_chaining wr) (wr_previous_record wr) (wr_record wr)) \<and>
         (endswith (name (joinpath (pr_record_dir pr) (parse_path rf))) ''.json'' \<longrightarrow>
            wr_path wr = joinpath (pr_record_dir pr) (parse_path rf)) \<and>
         (\<not> endswith (name (joinpath (pr_record_dir pr) (parse_path rf))) ''.json'' \<longrightarrow>
            wr_path wr =
              Path (anchor (joinpath (pr_record_dir pr) (parse_path rf)))
                (butlast (parts (joinpath (pr_record_dir pr) (parse_path rf))) @
                 [stem (joinpath (pr_record_dir pr) (parse_path rf)) @ ''.json''])) \<and>
         (valid_name rf \<and> endswith rf ''.json'' \<longrightarrow>
            wr_path wr = Path (anchor (pr_record_dir pr)) (parts (pr_record_dir pr) @ [rf])) \<and>
         (valid_name rf \<and> CHR ''.'' \<notin> set rf \<longrightarrow>
            wr_path wr = Path (anchor (pr_record_dir pr))
                           (parts (pr_record_dir pr) @ [rf @ ''.json'']))"
proof -
  let ?q = "joinpath (pr_record_dir pr) (parse_path rf)"
  have n: "record_name_local cl = rf" using assms(1-4) by (rule decorated_record_name)
  from assms(5) obtain w1 where
    p: "full_record_path cl (pr_record_dir pr) = Inr (wr_path wr)" and
    dmp: "dump L w1 (wr_path wr)
       (out_record (wr_chaining wr) (wr_previous_record wr) (wr_record wr)) = Return () w2"
    by (rule pre_write_Return)
  from p n have j: "json_name ?q = Inr (wr_path wr)" by (simp add: full_record_path_def)
  have c1: "endswith (name (wr_path wr)) ''.json''" using j by (rule json_name_endswith)
  have c2: "write_record L w2 (wr_path wr) = dump L w2 (wr_path wr)"
    using write_record_json [OF j] by blast
  have c3: "load w2 (wr_path wr)
           = Inr (out_record (wr_chaining wr) (wr_previous_record wr) (wr_record wr))"
    using dmp by (rule load_after_dump)
  have c4: "endswith (name ?q) ''.json'' \<longrightarrow> wr_path wr = ?q"
    using j by (auto simp: json_name_def)
  have c5: "\<not> endswith (name ?q) ''.json'' \<longrightarrow>
            wr_path wr = Path (anchor ?q) (butlast (parts ?q) @ [stem ?q @ ''.json''])"
    using j by (auto simp: json_name_def with_name_def split: if_splits)
  have plain: "valid_name rf \<Longrightarrow>
      ?q = Path (anchor (pr_record_dir pr)) (parts (pr_record_dir pr) @ [rf])"
    by (simp add: parse_path_plain joinpath_def)
  have c6: "valid_name rf \<and> endswith rf ''.json'' \<longrightarrow>
            wr_path wr = Path (anchor (pr_record_dir pr)) (parts (pr_record_dir pr) @ [rf])"
  proof
    assume a: "valid_name rf \<and> endswith rf ''.json''"
    with plain have q: "?q = Path (anchor (pr_record_dir pr)) (parts (pr_record_dir pr) @ [rf])"
      by blast
    then have "name ?q = rf" by (simp add: name_def)
    with a c4 q show "wr_path wr = Path (anchor (pr_record_dir pr)) (parts (pr_record_dir pr) @ [rf])"
      by simp
  qed
  have c7: "valid_name rf \<and> CHR ''.'' \<notin> set rf \<longrightarrow>
            wr_path wr = Path (anchor (pr_record_dir pr))
                           (parts (pr_record_dir pr) @ [rf @ ''.json''])"
  proof
    assume a: "valid_name rf \<and> CHR ''.'' \<notin> set rf"
    with plain have q: "?q = Path (anchor (pr_record_dir pr)) (parts (pr_record_dir pr) @ [rf])"
      by blast
    then have nq: "name ?q = rf" by (simp add: name_def)
    with a have st: "stem ?q = rf" by (simp add: stem_plain)
    from a have "\<not> endswith rf ''.json''"
      using endswith_set [of rf "''.json''" "CHR ''.''"] by auto
    with nq c5 have "wr_path wr = Path (anchor ?q) (butlast (parts ?q) @ [stem ?q @ ''.json''])"
      by simp
    with q st show "wr_path wr = Path (anchor (pr_record_dir pr))
                           (parts (pr_record_dir pr) @ [rf @ ''.json''])"
      by simp
  qed
  from c1 c2 c3 c4 c5 c6 c7 show ?thesis by blast
qed

text \<open>
  With \<^verbatim>\<open>record_filename='run.v2'\<close> the record is written to \<^verbatim>\<open>run.json\<close>, and there is no
  file \<^verbatim>\<open>run.v2.json\<close>: the extension is not appended to the configured name.
\<close>

theorem record_file_extension_counterexample:
  "lookup (world_after (wrapper plain
       (the (decorated (defaults\<lparr>literal_directory := Some (PStr ''/data''),
                                 record_filename := Some ''run.v2''\<rparr>) some_fun))
       call4 disk)) [''data'', ''run.json''] \<noteq> None \<and>
   lookup (world_after (wrapper plain
       (the (decorated (defaults\<lparr>literal_directory := Some (PStr ''/data''),
                                 record_filename := Some ''run.v2''\<rparr>) some_fun))
       call4 disk)) [''data'', ''run.v2.json''] = None"
  by code_simp

theorem record_file_extension_witness:
  "(\<exists>cl pr w1 wr w2.
      decorator (defaults\<lparr>literal_directory := Some (PStr ''/data''),
                          record_filename := Some ''my_record''\<rparr>) installation some_fun
        = Inr cl \<and>
      prepare plain cl call4 disk = Return pr w1 \<and> pre_write plain cl pr w1 = Return wr w2 \<and>
      wr_path wr = Path Slash [''data'', ''my_record.json'']) \<and>
   (\<exists>cl pr w1 wr w2.
      decorator (defaults\<lparr>literal_directory := Some (PStr ''/data''),
                          record_filename := Some ''results.json''\<rparr>) installation some_fun
        = Inr cl \<and>
      prepare plain cl call4 disk = Return pr w1 \<and> pre_write plain cl pr w1 = Return wr w2 \<and>
      wr_path wr = Path Slash [''data'', ''results.json'']) \<and>
   (\<exists>cl pr w1 wr w2.
      decorator (defaults\<lparr>literal_directory := Some (PStr ''/data''),
                          record_filename := Some ''run.v2''\<rparr>) installation some_fun
        = Inr cl \<and>
      prepare plain cl call4 disk = Return pr w1 \<and> pre_write plain cl pr w1 = Return wr w2 \<and>
      wr_path wr = Path Slash [''data'', ''run.json''])"
proof -
  let ?cfg = "\<lambda>rf. defaults\<lparr>literal_directory := Some (PStr ''/data''),
                              record_filename := Some rf\<rparr>"
  have t: "tracked (?cfg rf) = Inr (decorator (?cfg rf))" for rf
    by (simp add: tracked_def defaults_def)
  have rf: "record_filename (?cfg rf) = Some rf" for rf by simp
  have "\<not> isl (decorator (?cfg ''my_record'') installation some_fun)"
    and "raised (wrapper plain (the (decorated (?cfg ''my_record'') some_fun)) call4 disk) = None"
    by code_simp+
  with t obtain cl1 pr1 w1 wr1 w1' where
    d1: "decorator (?cfg ''my_record'') installation some_fun = Inr cl1" and
    e1: "cl1 = the (decorated (?cfg ''my_record'') some_fun)" and
    p1: "prepare plain cl1 call4 disk = Return pr1 w1" and
    q1: "pre_write plain cl1 pr1 w1 = Return wr1 w1'"
    by (rule decorated_call)
  have "map_option pr_record_dir
          (returned (prepare plain (the (decorated (?cfg ''my_record'') some_fun)) call4 disk))
        = Some (Path Slash [''data''])" by code_simp
  with p1 e1 have r1: "pr_record_dir pr1 = Path Slash [''data'']" by (simp add: returned_def)
  have "valid_name ''my_record'' \<and> CHR ''.'' \<notin> set ''my_record''"
    by (simp add: valid_name_def)
  with record_file_extension [OF t d1 rf _ q1] r1
  have a1: "wr_path wr1 = Path Slash [''data'', ''my_record.json'']" by simp
  have "\<not> isl (decorator (?cfg ''results.json'') installation some_fun)"
    and "raised (wrapper plain (the (decorated (?cfg ''results.json'') some_fun)) call4 disk)
           = None"
    by code_simp+
  with t obtain cl2 pr2 w2 wr2 w2' where
    d2: "decorator (?cfg ''results.json'') installation some_fun = Inr cl2" and
    e2: "cl2 = the (decorated (?cfg ''results.json'') some_fun)" and
    p2: "prepare plain cl2 call4 disk = Return pr2 w2" and
    q2: "pre_write plain cl2 pr2 w2 = Return wr2 w2'"
    by (rule decorated_call)
  have "map_option pr_record_dir
          (returned (prepare plain (the (decorated (?cfg ''results.json'') some_fun)) call4 disk))
        = Some (Path Slash [''data''])" by code_simp
  with p2 e2 have r2: "pr_record_dir pr2 = Path Slash [''data'']" by (simp add: returned_def)
  have "valid_name ''results.json'' \<and> endswith ''results.json'' ''.json''"
    by (simp add: valid_name_def endswith_def)
  with record_file_extension [OF t d2 rf _ q2] r2
  have a2: "wr_path wr2 = Path Slash [''data'', ''results.json'']" by simp
  have "\<not> isl (decorator (?cfg ''run.v2'') installation some_fun)"
    and "raised (wrapper plain (the (decorated (?cfg ''run.v2'') some_fun)) call4 disk) = None"
    by code_simp+
  with t obtain cl3 pr3 w3 wr3 w3' where
    d3: "decorator (?cfg ''run.v2'') installation some_fun = Inr cl3" and
    e3: "cl3 = the (decorated (?cfg ''run.v2'') some_fun)" and
    p3: "prepare plain cl3 call4 disk = Return pr3 w3" and
    q3: "pre_write plain cl3 pr3 w3 = Return wr3 w3'"
    by (rule decorated_call)
  have "map_option pr_record_dir
          (returned (prepare plain (the (decorated (?cfg ''run.v2'') some_fun)) call4 disk))
        = Some (Path Slash [''data''])" by code_simp
  with p3 e3 have r3: "pr_record_dir pr3 = Path Slash [''data'']" by (simp add: returned_def)
  have j3: "joinpath (Path Slash [''data'']) (parse_path ''run.v2'') = Path Slash [''data'', ''run.v2'']"
    by code_simp
  have "\<not> endswith (name (Path Slash [''data'', ''run.v2''])) ''.json''"
    and "stem (Path Slash [''data'', ''run.v2'']) = ''run''"
    by code_simp+
  with record_file_extension [OF t d3 rf _ q3] r3 j3
  have a3: "wr_path wr3 = Path Slash [''data'', ''run.json'']" by simp
  from d1 p1 q1 a1 d2 p2 q2 a2 d3 p3 q3 a3 show ?thesis by blast
qed


section \<open>The output directory that must be empty\<close>

text \<open>
  Claim C8. With \<^verbatim>\<open>require_empty_directory\<close> set, take a call that has bound its arguments
  and resolved its output directory and its seed. If the output directory holds an entry
  when the call is made, the call raises \<^verbatim>\<open>FileExistsError\<close>, and the world it leaves is
  the world before the call with, at most, directories added (and the seed given to the
  random number libraries): no file was written and none was overwritten.
\<close>

theorem require_empty_conflict:
  assumes "require_empty_directory (options cl)"
    and "prepare L cl c w = Return pr w1"
    and "iterdir w (pr_record_dir pr) = Inr (entry # entries)"
  shows "wrapper L cl c w = Raise FileExistsError w1 \<and> grown w w1"
proof -
  from assms(2) have g: "grown w w1" by (rule prepare_Return_grown)
  from grown_iterdir [OF g assms(3)] obtain entry' entries' where
    i: "iterdir w1 (pr_record_dir pr) = Inr (entry' # entries')" by blast
  then obtain k where "locate w1 (pr_record_dir pr) = Inr k" "lookup w1 k = Some Dir"
    by (rule iterdir_entry)
  then have "mkdir w1 (pr_record_dir pr) (create_parents (options cl)) = Inr w1"
    by (rule mkdir_existing)
  with assms(1) i have "make_directory cl (pr_record_dir pr) w1 = Raise FileExistsError w1"
    by (simp add: make_directory_def)
  then have "pre_write L cl pr w1 = Raise FileExistsError w1"
    by (simp add: pre_write_def)
  with assms(2) have "wrapper L cl c w = Raise FileExistsError w1"
    by (simp add: wrapper_def)
  with g show ?thesis by simp
qed

theorem require_empty_conflict_witness:
  "raised (wrapper plain
     (the (decorated (defaults\<lparr>literal_directory := Some (PStr ''/data''),
                               require_empty_directory := True\<rparr>) some_fun))
     call4 junk_disk) = Some FileExistsError \<and>
   lookup (world_after (wrapper plain
     (the (decorated (defaults\<lparr>literal_directory := Some (PStr ''/data''),
                               require_empty_directory := True\<rparr>) some_fun))
     call4 junk_disk)) [''data'', ''some_fun_record.json''] = None"
proof -
  let ?cl = "the (decorated (defaults\<lparr>literal_directory := Some (PStr ''/data''),
                               require_empty_directory := True\<rparr>) some_fun)"
  have r: "require_empty_directory (options ?cl)" by code_simp
  have "raised (prepare plain ?cl call4 junk_disk) = None" by code_simp
  then obtain pr w1 where p: "prepare plain ?cl call4 junk_disk = Return pr w1"
    using not_raised by blast
  have "map_option pr_record_dir (returned (prepare plain ?cl call4 junk_disk))
          = Some (Path Slash [''data''])" by code_simp
  with p have d: "pr_record_dir pr = Path Slash [''data'']" by (simp add: returned_def)
  have "iterdir junk_disk (Path Slash [''data'']) = Inr [[''data'', ''junk'']]" by code_simp
  with d have i: "iterdir junk_disk (pr_record_dir pr) = Inr ([''data'', ''junk''] # [])"
    by simp
  note conflict = require_empty_conflict [OF r p i]
  then have a: "raised (wrapper plain ?cl call4 junk_disk) = Some FileExistsError"
    by (simp add: raised_def)
  from conflict have e: "world_after (wrapper plain ?cl call4 junk_disk) = w1"
    by (simp add: world_after_def)
  have "lookup (world_after (prepare plain ?cl call4 junk_disk))
          [''data'', ''some_fun_record.json''] = None" by code_simp
  with p have "lookup w1 [''data'', ''some_fun_record.json''] = None"
    by (simp add: world_after_def)
  with e have b: "lookup (world_after (wrapper plain ?cl call4 junk_disk))
                    [''data'', ''some_fun_record.json''] = None"
    by simp
  from a b show ?thesis by simp
qed


section \<open>Exceptions and results of the wrapped function\<close>

text \<open>
  Claim C9, as the code has it. Take a call that has written its record before calling
  the function. When the function raises, the wrapper raises the same exception and
  leaves the world as the function left it: nothing is written after the call. The
  record file holds the record written before the call, with the start time and without
  end time and run time, and still holds it after the call when the function left the
  files alone. When the function returns, the record is written again, and the wrapper
  returns the value of the function only when that write succeeds: when it fails, the
  wrapper raises the exception of the write and the value is lost. The write fails, for
  one, when the record path no longer leads anywhere in the world the function left. It
  succeeds when the function deleted and renamed nothing, kept the working directory,
  and left its arguments in a state that \<^verbatim>\<open>json.dump\<close> can encode.
\<close>

theorem exception_passthrough:
  assumes "prepare L cl c w = Return pr w1" and "pre_write L cl pr w1 = Return wr w2"
  shows "(fn_body (func cl) (pr_arguments pr) w2 = Raise e w3 \<longrightarrow>
            wrapper L cl c w = Raise e w3) \<and>
         load w2 (wr_path wr)
           = Inr (out_record (wr_chaining wr) (wr_previous_record wr) (wr_record wr)) \<and>
         get_in (wr_record wr) ''timing'' ''start_time'' = Some (PStr (start_time c)) \<and>
         get_in (wr_record wr) ''timing'' ''end_time'' = None \<and>
         get_in (wr_record wr) ''timing'' ''run_time'' = None \<and>
         (fn_body (func cl) (pr_arguments pr) w2 = Raise e w3 \<and>
          files w3 = files w2 \<and> cwd w3 = cwd w2 \<longrightarrow>
            load (world_after (wrapper L cl c w)) (wr_path wr)
              = Inr (out_record (wr_chaining wr) (wr_previous_record wr) (wr_record wr))) \<and>
         (fn_body (func cl) (pr_arguments pr) w2 = Return result w3 \<longrightarrow>
            wrapper L cl c w =
              (case dump L w3 (wr_path wr) (post_document L cl c pr wr w2) of
                 Raise e' w4 \<Rightarrow> Raise e' w4
               | Return _ w4 \<Rightarrow> Return result w4)) \<and>
         (fn_body (func cl) (pr_arguments pr) w2 = Return result w3 \<and>
          locate w3 (wr_path wr) = Inl e \<longrightarrow>
            wrapper L cl c w = Raise e w3) \<and>
         (fn_body (func cl) (pr_arguments pr) w2 = Return result w3 \<and> keeps_tree w2 w3 \<and>
          json_dumps L (post_document L cl c pr wr w2) \<noteq> None \<longrightarrow>
            (\<exists>w5. wrapper L cl c w = Return result w5 \<and>
                  load w5 (wr_path wr) = Inr (post_document L cl c pr wr w2)))"
proof -
  note unfold = wrapper_prepared [OF assms(1)]
  from assms(2) obtain w1' where
    p: "full_record_path cl (pr_record_dir pr) = Inr (wr_path wr)" and
    d: "dump L w1' (wr_path wr)
          (out_record (wr_chaining wr) (wr_previous_record wr) (wr_record wr)) = Return () w2"
    by (rule pre_write_Return)
  from p have j: "write_record L u (wr_path wr) = dump L u (wr_path wr)" for u
    by (auto simp: full_record_path_def write_record_json)
  have c1: "fn_body (func cl) (pr_arguments pr) w2 = Raise e w3 \<longrightarrow>
              wrapper L cl c w = Raise e w3"
    using unfold assms(2) by (simp add: post_write_def)
  have c2: "load w2 (wr_path wr)
              = Inr (out_record (wr_chaining wr) (wr_previous_record wr) (wr_record wr))"
    using d by (rule load_after_dump)
  have c3: "get_in (wr_record wr) ''timing'' ''start_time'' = Some (PStr (start_time c))"
    and c4: "get_in (wr_record wr) ''timing'' ''end_time'' = None"
    and c5: "get_in (wr_record wr) ''timing'' ''run_time'' = None"
    by (simp_all add: pre_write_timing [OF assms])
  have c6: "fn_body (func cl) (pr_arguments pr) w2 = Raise e w3 \<and>
            files w3 = files w2 \<and> cwd w3 = cwd w2 \<longrightarrow>
            load (world_after (wrapper L cl c w)) (wr_path wr)
              = Inr (out_record (wr_chaining wr) (wr_previous_record wr) (wr_record wr))"
  proof
    assume a: "fn_body (func cl) (pr_arguments pr) w2 = Raise e w3 \<and>
               files w3 = files w2 \<and> cwd w3 = cwd w2"
    with c1 have "world_after (wrapper L cl c w) = w3" by (simp add: world_after_def)
    moreover from a have "load w3 (wr_path wr) = load w2 (wr_path wr)"
      by (intro load_same) simp_all
    ultimately show "load (world_after (wrapper L cl c w)) (wr_path wr)
              = Inr (out_record (wr_chaining wr) (wr_previous_record wr) (wr_record wr))"
      using c2 by simp
  qed
  have c7: "fn_body (func cl) (pr_arguments pr) w2 = Return result w3 \<longrightarrow>
            wrapper L cl c w =
              (case dump L w3 (wr_path wr) (post_document L cl c pr wr w2) of
                 Raise e' w4 \<Rightarrow> Raise e' w4
               | Return _ w4 \<Rightarrow> Return result w4)"
    using unfold assms(2) j by (simp add: post_write_def post_document_def)
  have c8: "fn_body (func cl) (pr_arguments pr) w2 = Return result w3 \<and>
          locate w3 (wr_path wr) = Inl e \<longrightarrow>
            wrapper L cl c w = Raise e w3"
    using c7 by (simp add: dump_def)
  have c9: "fn_body (func cl) (pr_arguments pr) w2 = Return result w3 \<and> keeps_tree w2 w3 \<and>
          json_dumps L (post_document L cl c pr wr w2) \<noteq> None \<longrightarrow>
            (\<exists>w5. wrapper L cl c w = Return result w5 \<and>
                  load w5 (wr_path wr) = Inr (post_document L cl c pr wr w2))"
  proof
    assume a: "fn_body (func cl) (pr_arguments pr) w2 = Return result w3 \<and> keeps_tree w2 w3 \<and>
          json_dumps L (post_document L cl c pr wr w2) \<noteq> None"
    then have kt: "keeps_tree w2 w3"
      and en: "json_dumps L (post_document L cl c pr wr w2) \<noteq> None" by simp_all
    from d kt en obtain k where
      dd: "dump L w3 (wr_path wr) (post_document L cl c pr wr w2)
       = Return () (store w3 k (File (Some (post_document L cl c pr wr w2))))"
      by (rule keeps_tree_dump)
    with a c7 have "wrapper L cl c w
        = Return result (store w3 k (File (Some (post_document L cl c pr wr w2))))"
      by simp
    moreover from dd have
      "load (store w3 k (File (Some (post_document L cl c pr wr w2)))) (wr_path wr)
         = Inr (post_document L cl c pr wr w2)"
      by (rule load_after_dump)
    ultimately show "\<exists>w5. wrapper L cl c w = Return result w5 \<and>
                  load w5 (wr_path wr) = Inr (post_document L cl c pr wr w2)"
      by blast
  qed
  from c1 c2 c3 c4 c5 c6 c7 c8 c9 show ?thesis by (intro conjI)
qed

text \<open>
  With \<^verbatim>\<open>literal_directory='/data/run'\<close> the wrapper makes the directory and writes the
  record; the function removes the directory and returns \<open>7\<close>; the wrapper then raises
  \<^verbatim>\<open>FileNotFoundError\<close> and the caller never sees the \<open>7\<close>.
\<close>

theorem exception_passthrough_counterexample:
  "map_option returned (called plain
     (the (decorated (defaults\<lparr>literal_directory := Some (PStr ''/data/run'')\<rparr>) removing_fun))
     call4 disk) = Some (Some (PInt 7)) \<and>
   raised (wrapper plain
     (the (decorated (defaults\<lparr>literal_directory := Some (PStr ''/data/run'')\<rparr>) removing_fun))
     call4 disk) = Some FileNotFoundError \<and>
   returned (wrapper plain
     (the (decorated (defaults\<lparr>literal_directory := Some (PStr ''/data/run'')\<rparr>) removing_fun))
     call4 disk) = None"
  by code_simp

theorem exception_passthrough_witness:
  "raised (wrapper plain
     (the (decorated (defaults\<lparr>literal_directory := Some (PStr ''/data'')\<rparr>) failing_fun))
     call4 disk) = Some (Raised ''boom'') \<and>
   (\<exists>doc. load (world_after (wrapper plain
              (the (decorated (defaults\<lparr>literal_directory := Some (PStr ''/data'')\<rparr>)
                      failing_fun))
              call4 disk)) (Path Slash [''data'', ''some_fun_record.json'']) = Inr (PDict doc) \<and>
      get_in doc ''timing'' ''start_time'' = Some (PStr ''2024-05-01 10:00:00'') \<and>
      get_in doc ''timing'' ''end_time'' = None \<and>
      get_in doc ''timing'' ''run_time'' = None) \<and>
   returned (wrapper plain
     (the (decorated (defaults\<lparr>literal_directory := Some (PStr ''/data'')\<rparr>) some_fun))
     call4 disk)
     = Some (PDict [(''x'', PInt 4), (''out'', PNone), (''name'', PStr ''run''),
                    (''seed'', PNone), (''where'', PNone)])"
proof -
  let ?cfg = "defaults\<lparr>literal_directory := Some (PStr ''/data'')\<rparr>"
  let ?clF = "the (decorated ?cfg failing_fun)"
  let ?clS = "the (decorated ?cfg some_fun)"
  let ?path = "Path Slash [''data'', ''some_fun_record.json'']"
  have t: "tracked ?cfg = Inr (decorator ?cfg)" by (simp add: tracked_def defaults_def)
  have "\<not> isl (decorator ?cfg installation failing_fun)"
    and "raised (before_call plain ?clF call4 disk) = None"
    by code_simp+
  with t obtain cl pr w1 wr w2 where
    e: "cl = ?clF" and f: "func cl = failing_fun" and o: "options cl = ?cfg" and
    b: "before_call plain cl call4 disk = Return (pr, wr) w2" and
    p: "prepare plain cl call4 disk = Return pr w1" and
    q: "pre_write plain cl pr w1 = Return wr w2"
    by (rule decorated_before_call)
  have body: "fn_body (func cl) (pr_arguments pr) w2 = Raise (Raised ''boom'') w2"
    by (simp add: f failing_fun_def)
  note facts = exception_passthrough [OF p q, where e = "Raised ''boom''" and ?w3.0 = w2]
  from facts body have r: "wrapper plain cl call4 disk = Raise (Raised ''boom'') w2"
    by blast
  from facts body have l: "load (world_after (wrapper plain cl call4 disk)) (wr_path wr)
      = Inr (out_record (wr_chaining wr) (wr_previous_record wr) (wr_record wr))"
    by blast
  from q obtain w1' where "wr_chaining wr = (chain_records (options cl) \<and> exists w1' (wr_path wr))"
    by (rule pre_write_Return)
  with o have "\<not> wr_chaining wr" by (simp add: defaults_def)
  with l have l': "load (world_after (wrapper plain cl call4 disk)) (wr_path wr)
      = Inr (PDict (wr_record wr))" by (simp add: out_record_def)
  have "map_option (\<lambda>x. wr_path (snd x)) (returned (before_call plain ?clF call4 disk))
          = Some ?path" by code_simp
  with b e have wp: "wr_path wr = ?path" by (simp add: returned_def)
  from facts have tm: "get_in (wr_record wr) ''timing'' ''start_time'' = Some (PStr (start_time call4))"
    "get_in (wr_record wr) ''timing'' ''end_time'' = None"
    "get_in (wr_record wr) ''timing'' ''run_time'' = None" by blast+
  from r e have c1: "raised (wrapper plain ?clF call4 disk) = Some (Raised ''boom'')"
    by (simp add: raised_def)
  from l' wp tm e have c2: "\<exists>doc. load (world_after (wrapper plain ?clF call4 disk)) ?path
        = Inr (PDict doc) \<and>
      get_in doc ''timing'' ''start_time'' = Some (PStr ''2024-05-01 10:00:00'') \<and>
      get_in doc ''timing'' ''end_time'' = None \<and>
      get_in doc ''timing'' ''run_time'' = None"
    by (intro exI [of _ "wr_record wr"]) (simp add: call4_def)
  have "\<not> isl (decorator ?cfg installation some_fun)"
    and "raised (before_call plain ?clS call4 disk) = None"
    by code_simp+
  with t obtain cl' pr' w1' wr' w2' where
    e': "cl' = ?clS" and f': "func cl' = some_fun" and
    b': "before_call plain cl' call4 disk = Return (pr', wr') w2'" and
    p': "prepare plain cl' call4 disk = Return pr' w1'" and
    q': "pre_write plain cl' pr' w1' = Return wr' w2'"
    by (rule decorated_before_call)
  have body': "fn_body (func cl') (pr_arguments pr') w2' = Return (PDict (pr_arguments pr')) w2'"
    by (simp add: f' some_fun_def)
  have "(case before_call plain ?clS call4 disk of
           Return x u \<Rightarrow> json_dumps plain (post_document plain ?clS call4 (fst x) (snd x) u) \<noteq> None
         | Raise _ _ \<Rightarrow> False)"
    by code_simp
  with b' e' have enc: "json_dumps plain (post_document plain cl' call4 pr' wr' w2') \<noteq> None"
    by simp
  have kept: "keeps_tree w2' w2'" by simp
  note facts' = exception_passthrough [OF p' q', where ?w3.0 = w2' and
                                        result = "PDict (pr_arguments pr')"]
  from facts' have "fn_body (func cl') (pr_arguments pr') w2' = Return (PDict (pr_arguments pr')) w2' \<and>
      keeps_tree w2' w2' \<and>
      json_dumps plain (post_document plain cl' call4 pr' wr' w2') \<noteq> None \<longrightarrow>
        (\<exists>w5. wrapper plain cl' call4 disk = Return (PDict (pr_arguments pr')) w5 \<and>
              load w5 (wr_path wr') = Inr (post_document plain cl' call4 pr' wr' w2'))"
    by blast
  with body' kept enc
  obtain w5 where "wrapper plain cl' call4 disk = Return (PDict (pr_arguments pr')) w5"
    by blast
  then have ret: "returned (wrapper plain cl' call4 disk) = Some (PDict (pr_arguments pr'))"
    by (simp add: returned_def)
  have "map_option (\<lambda>x. pr_arguments (fst x)) (returned (before_call plain ?clS call4 disk))
          = Some [(''x'', PInt 4), (''out'', PNone), (''name'', PStr ''run''),
                  (''seed'', PNone), (''where'', PNone)]" by code_simp
  with b' e' have "pr_arguments pr' = [(''x'', PInt 4), (''out'', PNone), (''name'', PStr ''run''),
                  (''seed'', PNone), (''where'', PNone)]" by (simp add: returned_def)
  with ret e' have c3: "returned (wrapper plain ?clS call4 disk)
     = Some (PDict [(''x'', PInt 4), (''out'', PNone), (''name'', PStr ''run''),
                    (''seed'', PNone), (''where'', PNone)])" by simp
  from c1 c2 c3 show ?thesis by blast
qed

end
